theory Spec2Isabelle
  imports Complex_Main
begin

section \<open>Python values\<close>

text \<open>
  The library is dynamically typed: configuration values, JSON payloads and response
  bodies are Python objects. \<open>pyval\<close> is the part of that universe the code handles.
  A tuple is written as a \<open>PList\<close> (the JSON encoder treats both alike), a dict is an
  association list in insertion order. \<open>PJsonStr v\<close> is the \<open>str\<close> that
  \<^verbatim>\<open>json.dumps(v)\<close> returns and \<open>PJsonBytes v\<close> that text encoded as UTF-8:
  the encoder's output format is the standard library's business, which value was encoded
  is the program's. Floats are exact rationals. A \<open>str\<close> is a list of HOL characters.
\<close>

datatype pyval =
    PNone
  | PBool bool
  | PInt int
  | PFloat rat
  | PStr string
  | PBytes string
  | PList "pyval list"
  | PDict "(string \<times> pyval) list"
  | PJsonStr pyval
  | PJsonBytes pyval

type_synonym pydict = "(string \<times> pyval) list"

text \<open>
  Modelled from the spec: the exception class \<^verbatim>\<open>ColorNotInRangeException\<close> of the
  module \<^verbatim>\<open>webhook_exceptions\<close>, which is not among the sources (a colour outside
  the range "fails with a value out of range error"). The other constructors are the
  exceptions of Python and of the HTTP libraries that the code raises or lets through.
  An exception is modelled by its class; its message is left out.
\<close>

datatype error =
    ValueError
  | TypeError
  | AttributeError
  | KeyError
  | AssertionError
  | JSONDecodeError
  | UnicodeDecodeError
  | HTTPException
  | ColorNotInRangeException
  | MissingSchema

text \<open>Truth value testing, as \<^verbatim>\<open>if x:\<close> does it.\<close>

fun truthy :: "pyval \<Rightarrow> bool" where
  "truthy PNone = False"
| "truthy (PBool b) = b"
| "truthy (PInt n) = (n \<noteq> 0)"
| "truthy (PFloat x) = (x \<noteq> 0)"
| "truthy (PStr s) = (s \<noteq> [])"
| "truthy (PBytes b) = (b \<noteq> [])"
| "truthy (PList xs) = (xs \<noteq> [])"
| "truthy (PDict kvs) = (kvs \<noteq> [])"
| "truthy (PJsonStr v) = True"
| "truthy (PJsonBytes v) = True"

text \<open>
  \<^verbatim>\<open>json.dumps\<close> raises \<open>TypeError\<close> on a \<open>bytes\<close> object anywhere in the value
  and accepts everything else that \<open>pyval\<close> can hold.
\<close>

fun serializable :: "pyval \<Rightarrow> bool" where
  "serializable (PBytes b) = False"
| "serializable (PJsonBytes v) = False"
| "serializable (PList xs) = list_all serializable xs"
| "serializable (PDict kvs) = list_all (\<lambda>p. serializable (snd p)) kvs"
| "serializable v = True"

text \<open>\<^verbatim>\<open>d[k] = v\<close>: an existing key keeps its position, a new key goes last.\<close>

fun dict_set :: "string \<Rightarrow> 'v \<Rightarrow> (string \<times> 'v) list \<Rightarrow> (string \<times> 'v) list" where
  "dict_set k v [] = [(k, v)]"
| "dict_set k v ((k', v') # d) = (if k = k' then (k, v) # d else (k', v') # dict_set k v d)"

text \<open>\<^verbatim>\<open>if x: data[k] = x\<close>, the statement both serializers are made of.\<close>

definition set_if_truthy :: "string \<times> pyval \<Rightarrow> pydict \<Rightarrow> pydict" where
  "set_if_truthy kv data = (if truthy (snd kv) then dict_set (fst kv) (snd kv) data else data)"

definition opt_str :: "string option \<Rightarrow> pyval" where
  "opt_str s = (case s of None \<Rightarrow> PNone | Some t \<Rightarrow> PStr t)"

definition opt_int :: "int option \<Rightarrow> pyval" where
  "opt_int n = (case n of None \<Rightarrow> PNone | Some i \<Rightarrow> PInt i)"

definition opt_dict :: "pydict option \<Rightarrow> pyval" where
  "opt_dict d = (case d of None \<Rightarrow> PNone | Some kvs \<Rightarrow> PDict kvs)"

subsection \<open>Number parsing\<close>

text \<open>
  \<^verbatim>\<open>int(s, 16)\<close> on an optional sign, an optional \<^verbatim>\<open>0x\<close> prefix and hexadecimal
  digits; \<open>None\<close> stands for the \<open>ValueError\<close> of a string that is not of this form.
  (Python also accepts surrounding blanks and underscores between digits; such strings
  are not hexadecimal numerals in the sense used below.)
\<close>

definition hex_digit :: "char \<Rightarrow> int option" where
  "hex_digit c =
     (let n = (of_char c :: nat) in
      if 48 \<le> n \<and> n \<le> 57 then Some (int n - 48)
      else if 97 \<le> n \<and> n \<le> 102 then Some (int n - 87)
      else if 65 \<le> n \<and> n \<le> 70 then Some (int n - 55)
      else None)"

fun hex_digits :: "string \<Rightarrow> int \<Rightarrow> int option" where
  "hex_digits [] acc = Some acc"
| "hex_digits (c # cs) acc =
     (case hex_digit c of None \<Rightarrow> None | Some d \<Rightarrow> hex_digits cs (16 * acc + d))"

definition hex_unsigned :: "string \<Rightarrow> int option" where
  "hex_unsigned s =
     (let ds = (if take 2 s = ''0x'' \<or> take 2 s = ''0X'' then drop 2 s else s)
      in if ds = [] then None else hex_digits ds 0)"

definition int_base16 :: "string \<Rightarrow> int option" where
  "int_base16 s =
     (case s of
        [] \<Rightarrow> None
      | c # cs \<Rightarrow>
          if c = CHR ''-'' then map_option uminus (hex_unsigned cs)
          else if c = CHR ''+'' then hex_unsigned cs
          else hex_unsigned s)"

text \<open>
  \<^verbatim>\<open>float(s)\<close> on an optional sign, decimal digits and an optional fraction part;
  \<open>None\<close> stands for the \<open>ValueError\<close> of any other string (exponents, \<^verbatim>\<open>inf\<close>
  and \<^verbatim>\<open>nan\<close> are outside the model, as they are outside the rationals).
\<close>

definition dec_digit :: "char \<Rightarrow> nat option" where
  "dec_digit c =
     (let n = (of_char c :: nat) in if 48 \<le> n \<and> n \<le> 57 then Some (n - 48) else None)"

fun dec_digits :: "string \<Rightarrow> nat \<Rightarrow> nat option" where
  "dec_digits [] acc = Some acc"
| "dec_digits (c # cs) acc =
     (case dec_digit c of None \<Rightarrow> None | Some d \<Rightarrow> dec_digits cs (10 * acc + d))"

definition dec_unsigned :: "string \<Rightarrow> rat option" where
  "dec_unsigned s =
     (let ip = takeWhile (\<lambda>c. c \<noteq> CHR ''.'') s;
          fp = drop (Suc (length ip)) s
      in if ip = [] \<and> fp = [] then None
         else case (dec_digits ip 0, dec_digits fp 0) of
                (Some i, Some f) \<Rightarrow> Some (of_nat i + of_nat f / of_nat (10 ^ length fp))
              | _ \<Rightarrow> None)"

definition float_of_str :: "string \<Rightarrow> rat option" where
  "float_of_str s =
     (case s of
        [] \<Rightarrow> None
      | c # cs \<Rightarrow>
          if c = CHR ''-'' then map_option uminus (dec_unsigned cs)
          else if c = CHR ''+'' then dec_unsigned cs
          else dec_unsigned s)"

text \<open>\<^verbatim>\<open>float(v)\<close>.\<close>

fun py_float :: "pyval \<Rightarrow> error + rat" where
  "py_float (PInt n) = Inr (of_int n)"
| "py_float (PFloat x) = Inr x"
| "py_float (PBool b) = Inr (if b then 1 else 0)"
| "py_float (PStr s) = (case float_of_str s of None \<Rightarrow> Inl ValueError | Some x \<Rightarrow> Inr x)"
| "py_float v = Inl TypeError"

section \<open>The embed (class DiscordEmbed)\<close>

text \<open>
  The attributes as \<^verbatim>\<open>__init__\<close> assigns them. \<open>timestamp\<close> is assigned by
  \<^verbatim>\<open>set_timestamp\<close> only, so \<open>None\<close> there means that the object has no such
  attribute and reading it raises \<open>AttributeError\<close>; everywhere else \<open>None\<close> is
  Python's \<open>None\<close>. The sub-objects are the dicts the setters build.
\<close>

record embed =
  author :: "pydict option"
  color :: "int option"
  description :: "string option"
  embed_fields :: "pydict list"
  footer :: "pydict option"
  embed_image :: "pydict option"
  provider :: "pydict option"
  thumbnail :: "pydict option"
  timestamp :: "string option"
  title :: "string option"
  embed_url :: "string option"
  video :: "pydict option"

datatype color_arg = ColorNone | ColorInt int | ColorStr string

text \<open>
  \<^verbatim>\<open>set_color\<close> (webhook.py 168-175). The attribute is assigned before the range
  check, so the embed keeps an out-of-range value when the exception is raised.
\<close>

definition set_color :: "color_arg \<Rightarrow> embed \<Rightarrow> (error + unit) \<times> embed" where
  "set_color c e =
     (case (case c of
              ColorStr s \<Rightarrow>
                (case int_base16 s of None \<Rightarrow> Inl ValueError | Some n \<Rightarrow> Inr (Some n))
            | ColorInt n \<Rightarrow> Inr (Some n)
            | ColorNone \<Rightarrow> Inr None) of
        Inl err \<Rightarrow> (Inl err, e)
      | Inr v \<Rightarrow>
          (let e' = e\<lparr>color := v\<rparr> in
           case v of
             None \<Rightarrow> (Inr (), e')
           | Some n \<Rightarrow>
               if 0 \<le> n \<and> n < 16777216 then (Inr (), e')
               else (Inl ColorNotInRangeException, e')))"

text \<open>
  \<^verbatim>\<open>set_timestamp\<close> (156-166). \<open>stamp\<close> is the text \<^verbatim>\<open>timestamp.isoformat()\<close>
  produces after the conversions of lines 161-164; the clock and the calendar belong to
  the standard library.
\<close>

definition set_timestamp :: "string \<Rightarrow> embed \<Rightarrow> embed" where
  "set_timestamp stamp e = e\<lparr>timestamp := Some stamp\<rparr>"

text \<open>
  The keyword arguments of \<^verbatim>\<open>DiscordEmbed.__init__\<close>: \<open>None\<close> is an absent key
  (\<^verbatim>\<open>kwargs.get\<close> then yields \<open>None\<close> or its default). \<open>kw_timestamp\<close> holds the
  ISO text of a truthy \<^verbatim>\<open>timestamp\<close> argument and is \<open>None\<close> when the argument is
  absent or falsy, the only distinction line 80 makes.
\<close>

record embed_kwargs =
  kw_author :: "pydict option"
  kw_color :: color_arg
  kw_fields :: "pydict list option"
  kw_footer :: "pydict option"
  kw_image :: "pydict option"
  kw_provider :: "pydict option"
  kw_thumbnail :: "pydict option"
  kw_timestamp :: "string option"
  kw_embed_url :: "string option"
  kw_video :: "pydict option"

definition no_embed_kwargs :: embed_kwargs where
  "no_embed_kwargs =
     \<lparr>kw_author = None, kw_color = ColorNone, kw_fields = None, kw_footer = None,
      kw_image = None, kw_provider = None, kw_thumbnail = None, kw_timestamp = None,
      kw_embed_url = None, kw_video = None\<rparr>"

definition DiscordEmbed :: "string option \<Rightarrow> string option \<Rightarrow> embed_kwargs \<Rightarrow> error + embed" where
  "DiscordEmbed t d kw =
     (let e = \<lparr>author = kw_author kw, color = None, description = d,
               embed_fields = (case kw_fields kw of None \<Rightarrow> [] | Some fs \<Rightarrow> fs),
               footer = kw_footer kw, embed_image = kw_image kw, provider = kw_provider kw,
               thumbnail = kw_thumbnail kw, timestamp = None, title = t,
               embed_url = kw_embed_url kw, video = kw_video kw\<rparr>
      in case set_color (kw_color kw) e of
           (Inl err, e') \<Rightarrow> Inl err
         | (Inr u, e') \<Rightarrow>
             (case kw_timestamp kw of
                None \<Rightarrow> Inr e'
              | Some stamp \<Rightarrow> Inr (set_timestamp stamp e')))"

text \<open>
  \<^verbatim>\<open>__len__\<close> (83-101). The loop unpacks each element of \<^verbatim>\<open>self.fields\<close>
  into two names; an element is a dict, iterating a dict yields its keys, and unpacking
  raises \<open>ValueError\<close> unless there are exactly two. \<^verbatim>\<open>len\<close> of a dict is its
  number of keys.
\<close>

fun fields_length :: "pydict list \<Rightarrow> nat \<Rightarrow> error + nat" where
  "fields_length [] total_length = Inr total_length"
| "fields_length (d # ds) total_length =
     (case map fst d of
        [field, val] \<Rightarrow> fields_length ds (total_length + (length field + length val))
      | _ \<Rightarrow> Inl ValueError)"

definition str_or_empty_len :: "string option \<Rightarrow> nat" where
  "str_or_empty_len s = (case s of None \<Rightarrow> 0 | Some t \<Rightarrow> length t)"

definition dict_or_empty_len :: "pydict option \<Rightarrow> nat" where
  "dict_or_empty_len d = (case d of None \<Rightarrow> 0 | Some kvs \<Rightarrow> length kvs)"

definition embed_len :: "embed \<Rightarrow> error + nat" where
  "embed_len e =
     (case fields_length (embed_fields e) 0 of
        Inl err \<Rightarrow> Inl err
      | Inr total_length \<Rightarrow>
          Inr (total_length + str_or_empty_len (title e) + str_or_empty_len (description e)
               + dict_or_empty_len (footer e) + dict_or_empty_len (author e)))"

text \<open>
  \<^verbatim>\<open>as_dict\<close> (103-133): the sequence of guarded assignments, in the order of the
  source (\<^verbatim>\<open>description\<close> occurs twice there). Reading \<^verbatim>\<open>self.timestamp\<close>
  raises when the attribute was never assigned.
\<close>

definition embed_as_dict :: "embed \<Rightarrow> error + pydict" where
  "embed_as_dict e =
     (case timestamp e of
        None \<Rightarrow> Inl AttributeError
      | Some ts \<Rightarrow>
          Inr (fold set_if_truthy
                 [(''title'', opt_str (title e)),
                  (''description'', opt_str (description e)),
                  (''url'', opt_str (embed_url e)),
                  (''timestamp'', PStr ts),
                  (''color'', opt_int (color e)),
                  (''footer'', opt_dict (footer e)),
                  (''image'', opt_dict (embed_image e)),
                  (''thumbnail'', opt_dict (thumbnail e)),
                  (''description'', opt_str (description e)),
                  (''video'', opt_dict (video e)),
                  (''provider'', opt_dict (provider e)),
                  (''author'', opt_dict (author e)),
                  (''fields'', PList (map PDict (embed_fields e)))] []))"

text \<open>\<^verbatim>\<open>set_footer\<close> (177-195).\<close>

definition set_footer :: "string \<Rightarrow> string option \<Rightarrow> string option \<Rightarrow> embed \<Rightarrow> embed" where
  "set_footer footer_text icon_url proxy_icon_url e =
     e\<lparr>footer := Some (fold set_if_truthy
                        [(''icon_url'', opt_str icon_url),
                         (''proxy_icon_url'', opt_str proxy_icon_url)]
                        [(''text'', PStr footer_text)])\<rparr>"

text \<open>\<^verbatim>\<open>set_author\<close> (287-311).\<close>

definition set_author ::
  "string \<Rightarrow> string option \<Rightarrow> string option \<Rightarrow> string option \<Rightarrow> embed \<Rightarrow> embed" where
  "set_author name author_url icon_url proxy_icon_url e =
     e\<lparr>author := Some (fold set_if_truthy
                        [(''url'', opt_str author_url),
                         (''icon_url'', opt_str icon_url),
                         (''proxy_icon_url'', opt_str proxy_icon_url)]
                        [(''name'', PStr name)])\<rparr>"

text \<open>\<^verbatim>\<open>add_embed_field\<close> (313-320).\<close>

definition add_embed_field :: "string \<Rightarrow> string \<Rightarrow> bool \<Rightarrow> embed \<Rightarrow> embed" where
  "add_embed_field name val inline e =
     e\<lparr>embed_fields := embed_fields e @ [[(''name'', PStr name), (''value'', PStr val),
                              (''inline'', PBool inline)]]\<rparr>"

section \<open>The webhook client (class DiscordWebhook)\<close>

text \<open>
  The attributes of a client. \<open>'l\<close> is how the embed sequence is held: the list itself
  (\<open>embed list\<close>) wherever one client is looked at alone, an address into a store of
  lists where several clients may hold the same list object. \<open>webhook_id\<close> is the
  attribute \<^verbatim>\<open>id\<close>; \<open>None\<close> there means that the attribute was never assigned.
  A file slot maps to the pair (file name or \<open>None\<close>, content). The transport options
  \<^verbatim>\<open>proxies\<close> and \<^verbatim>\<open>timeout\<close> are handed to the HTTP library unchanged and are
  left out.
\<close>

type_synonym files_dict = "(string \<times> (string option \<times> pyval)) list"

record 'l webhook =
  allowed_mentions :: pyval
  attachments :: pyval
  avatar_url :: pyval
  content :: pyval
  embeds :: 'l
  files :: files_dict
  rate_limit_retry :: pyval
  thread_id :: pyval
  thread_name :: pyval
  tts :: pyval
  url :: "string option"
  username :: pyval
  wait :: pyval
  components :: pyval
  webhook_id :: "pyval option"

text \<open>The keyword arguments of the constructor; \<open>None\<close> is an absent key.\<close>

record 'l kwargs =
  kw_allowed_mentions :: "pyval option"
  kw_attachments :: "pyval option"
  kw_avatar_url :: "pyval option"
  kw_content :: "pyval option"
  kw_embeds :: "'l option"
  kw_files :: "files_dict option"
  kw_id :: "pyval option"
  kw_rate_limit_retry :: "pyval option"
  kw_thread_id :: "pyval option"
  kw_thread_name :: "pyval option"
  kw_tts :: "pyval option"
  kw_username :: "pyval option"
  kw_wait :: "pyval option"
  kw_components :: "pyval option"
  kw_url :: "pyval option"

definition no_kwargs :: "'l kwargs" where
  "no_kwargs =
     \<lparr>kw_allowed_mentions = None, kw_attachments = None, kw_avatar_url = None,
      kw_content = None, kw_embeds = None, kw_files = None, kw_id = None,
      kw_rate_limit_retry = None, kw_thread_id = None, kw_thread_name = None,
      kw_tts = None, kw_username = None, kw_wait = None, kw_components = None,
      kw_url = None\<rparr>"

text \<open>\<^verbatim>\<open>kwargs.get(key, default)\<close>.\<close>

definition kwargs_get :: "'a option \<Rightarrow> 'a \<Rightarrow> 'a" where
  "kwargs_get v d = (case v of None \<Rightarrow> d | Some x \<Rightarrow> x)"

text \<open>\<^verbatim>\<open>s.split("/")\<close>.\<close>

fun split_on :: "char \<Rightarrow> string \<Rightarrow> string list" where
  "split_on sep [] = [[]]"
| "split_on sep (c # cs) =
     (if c = sep then [] # split_on sep cs
      else (case split_on sep cs of [] \<Rightarrow> [[c]] | chunk # chunks \<Rightarrow> (c # chunk) # chunks))"

text \<open>
  \<^verbatim>\<open>__init__\<close> (361-405). \<open>fresh_list\<close> is the new empty list that the default
  of \<^verbatim>\<open>kwargs.get("embeds", [])\<close> creates. The last statement is the only one that
  assigns \<^verbatim>\<open>self.id\<close>: a supplied \<^verbatim>\<open>id\<close> is not stored. \<^verbatim>\<open>chunks[-2]\<close>
  raises \<open>IndexError\<close> on fewer than two chunks and \<^verbatim>\<open>None.split\<close> raises
  \<open>AttributeError\<close>; both are turned into \<open>ValueError\<close>.
\<close>

definition webhook_init :: "'l \<Rightarrow> string option \<Rightarrow> 'l kwargs \<Rightarrow> error + 'l webhook" where
  "webhook_init fresh_list u kw =
     (let w = \<lparr>allowed_mentions = kwargs_get (kw_allowed_mentions kw) (PDict []),
               attachments = kwargs_get (kw_attachments kw) (PList []),
               avatar_url = kwargs_get (kw_avatar_url kw) PNone,
               content = kwargs_get (kw_content kw) PNone,
               embeds = kwargs_get (kw_embeds kw) fresh_list,
               files = kwargs_get (kw_files kw) [],
               rate_limit_retry = kwargs_get (kw_rate_limit_retry kw) (PBool False),
               thread_id = kwargs_get (kw_thread_id kw) PNone,
               thread_name = kwargs_get (kw_thread_name kw) PNone,
               tts = kwargs_get (kw_tts kw) (PBool False),
               url = u,
               username = kwargs_get (kw_username kw) (PBool False),
               wait = kwargs_get (kw_wait kw) (PBool True),
               components = kwargs_get (kw_components kw) PNone,
               webhook_id = None\<rparr>
      in if kwargs_get (kw_id kw) PNone = PNone then
           (case u of
              None \<Rightarrow> Inl ValueError
            | Some s \<Rightarrow>
                (let chunks = split_on (CHR ''/'') s
                 in if length chunks < 2 then Inl ValueError
                    else Inr (w\<lparr>webhook_id := Some (PStr (chunks ! (length chunks - 2)))\<rparr>)))
         else Inr w)"

definition DiscordWebhook :: "string option \<Rightarrow> embed list kwargs \<Rightarrow> error + embed list webhook" where
  "DiscordWebhook u kw = webhook_init [] u kw"

subsection \<open>State mutators\<close>


definition remove_embeds :: "embed list webhook \<Rightarrow> embed list webhook" where
  "remove_embeds w = w\<lparr>embeds := []\<rparr>"

definition add_file :: "pyval \<Rightarrow> string \<Rightarrow> 'l webhook \<Rightarrow> 'l webhook" where
  "add_file file filename w =
     w\<lparr>files := dict_set (CHR ''_'' # filename) (Some filename, file) (files w)\<rparr>"

definition clear_attachments :: "'l webhook \<Rightarrow> 'l webhook" where
  "clear_attachments w = w\<lparr>attachments := PList []\<rparr>"

definition remove_files :: "bool \<Rightarrow> 'l webhook \<Rightarrow> 'l webhook" where
  "remove_files clear w =
     (let w' = w\<lparr>files := []\<rparr> in if clear then clear_attachments w' else w')"

subsection \<open>Responses, requests and the network\<close>

text \<open>
  A response is what the code reads of it: the status code, the value of
  \<^verbatim>\<open>response.headers.get("Via")\<close>, and the content, classified by what decoding and
  \<^verbatim>\<open>json.loads\<close> make of it: bytes that are not UTF-8, text that is not JSON, or a
  JSON document with the value it parses to.
\<close>

datatype resp_body = Undecodable | NotJson | Json pyval

record response =
  status_code :: int
  via :: "string option"
  body :: resp_body

datatype http_method = POST | PATCH | DELETE

datatype req_body = JsonBody pydict | Multipart files_dict | NoBody

record request =
  req_method :: http_method
  req_url :: string
  req_params :: pydict
  req_body :: req_body

text \<open>
  The world outside the client: the requests sent so far and the waits performed so far,
  both in order. The server answers the \<open>n\<close>-th request (counted from 0) with
  \<open>srv n\<close>: a canned sequence of responses, without end.
\<close>

record world =
  sent :: "request list"
  slept :: "rat list"

type_synonym server = "nat \<Rightarrow> response"

type_synonym client_state = "embed list webhook \<times> world"

text \<open>
  One call of the HTTP library with a \<open>str\<close> URL: a \<^verbatim>\<open>json=\<close> body is encoded
  first, which fails on \<open>bytes\<close>; then the request goes out and the answer comes back.
\<close>

definition transport :: "server \<Rightarrow> request \<Rightarrow> world \<Rightarrow> (error + response) \<times> world" where
  "transport srv req wd =
     (if (case req_body req of JsonBody data \<Rightarrow> \<not> serializable (PDict data) | _ \<Rightarrow> False)
      then (Inl TypeError, wd)
      else (Inr (srv (length (sent wd))), wd\<lparr>sent := sent wd @ [req]\<rparr>))"

text \<open>\<^verbatim>\<open>json.loads(response.content.decode("utf-8"))\<close>, and the decoding alone.\<close>

definition loads_content :: "response \<Rightarrow> error + pyval" where
  "loads_content r =
     (case body r of
        Undecodable \<Rightarrow> Inl UnicodeDecodeError
      | NotJson \<Rightarrow> Inl JSONDecodeError
      | Json v \<Rightarrow> Inr v)"

definition decode_content :: "response \<Rightarrow> error + unit" where
  "decode_content r = (case body r of Undecodable \<Rightarrow> Inl UnicodeDecodeError | _ \<Rightarrow> Inr ())"

text \<open>\<^verbatim>\<open>v.get(k)\<close> and \<^verbatim>\<open>v[k]\<close> for a string key, on whatever the body parsed to.\<close>

definition py_get :: "pyval \<Rightarrow> string \<Rightarrow> error + pyval" where
  "py_get v k =
     (case v of
        PDict d \<Rightarrow> Inr (case map_of d k of None \<Rightarrow> PNone | Some x \<Rightarrow> x)
      | _ \<Rightarrow> Inl AttributeError)"

definition py_getitem :: "pyval \<Rightarrow> string \<Rightarrow> error + pyval" where
  "py_getitem v k =
     (case v of
        PDict d \<Rightarrow> (case map_of d k of None \<Rightarrow> Inl KeyError | Some x \<Rightarrow> Inr x)
      | _ \<Rightarrow> Inl TypeError)"

definition via_present :: "response \<Rightarrow> bool" where
  "via_present r = (case via r of None \<Rightarrow> False | Some v \<Rightarrow> v \<noteq> [])"

subsection \<open>Serialization\<close>

definition files_value :: "files_dict \<Rightarrow> pyval" where
  "files_value fs = PDict (map (\<lambda>(k, fn, c). (k, PList [opt_str fn, c])) fs)"

text \<open>\<^verbatim>\<open>[embed.as_dict() for embed in self.embeds]\<close>.\<close>

fun embeds_as_dicts :: "embed list \<Rightarrow> error + pyval list" where
  "embeds_as_dicts [] = Inr []"
| "embeds_as_dicts (e # es) =
     (case embed_as_dict e of
        Inl x \<Rightarrow> Inl x
      | Inr d \<Rightarrow> (case embeds_as_dicts es of Inl x \<Rightarrow> Inl x | Inr ds \<Rightarrow> Inr (PDict d # ds)))"

text \<open>
  The property \<^verbatim>\<open>json\<close> (521-560); \<^verbatim>\<open>as_dict\<close> (407-437) builds the same
  mapping. The log line at the end has no effect on the result. The files mapping itself
  is put into the payload (line 553-554).
\<close>

definition webhook_json :: "embed list webhook \<Rightarrow> error + pydict" where
  "webhook_json w =
     (case webhook_id w of
        None \<Rightarrow> Inl AttributeError
      | Some i \<Rightarrow>
          (case embeds_as_dicts (embeds w) of
             Inl x \<Rightarrow> Inl x
           | Inr ds \<Rightarrow>
               Inr (fold set_if_truthy
                      [(''allowed_mentions'', allowed_mentions w),
                       (''attachments'', attachments w),
                       (''avatar_url'', avatar_url w),
                       (''content'', content w),
                       (''embeds'', PList ds),
                       (''thread_id'', thread_id w),
                       (''thread_name'', thread_name w),
                       (''tts'', tts w),
                       (''username'', username w),
                       (''components'', components w),
                       (''files'', files_value (files w))]
                      [(''url'', opt_str (url w)), (''id'', i),
                       (''rate_limit_retry'', rate_limit_retry w)])))"

text \<open>\<^verbatim>\<open>_query_params\<close> (609-620).\<close>

definition query_params :: "'l webhook \<Rightarrow> pydict" where
  "query_params w = fold set_if_truthy [(''thread_id'', thread_id w), (''wait'', wait w)] []"

subsection \<open>The blocking client\<close>

text \<open>
  \<^verbatim>\<open>api_post_request\<close> (562-583). With files, the serialized payload is stored in
  the client's own files mapping under \<^verbatim>\<open>payload_json\<close> before the request is
  made. A URL that is \<open>None\<close> is refused by the HTTP library.
\<close>

definition api_post_request :: "server \<Rightarrow> client_state \<Rightarrow> (error + response) \<times> client_state" where
  "api_post_request srv s =
     (case s of (w, wd) \<Rightarrow>
        if files w = [] then
          (case webhook_json w of
             Inl x \<Rightarrow> (Inl x, s)
           | Inr data \<Rightarrow>
               (case url w of
                  None \<Rightarrow> (Inl MissingSchema, s)
                | Some u \<Rightarrow>
                    (case transport srv \<lparr>req_method = POST, req_url = u,
                                         req_params = query_params w,
                                         req_body = JsonBody data\<rparr> wd of
                       (r, wd') \<Rightarrow> (r, w, wd'))))
        else
          (case webhook_json w of
             Inl x \<Rightarrow> (Inl x, s)
           | Inr data \<Rightarrow>
               if \<not> serializable (PDict data) then (Inl TypeError, s)
               else
                 (let w' = w\<lparr>files := dict_set ''payload_json'' (None, PJsonStr (PDict data))
                                          (files w)\<rparr>
                  in case url w' of
                       None \<Rightarrow> (Inl MissingSchema, w', wd)
                     | Some u \<Rightarrow>
                         (case transport srv \<lparr>req_method = POST, req_url = u,
                                              req_params = query_params w',
                                              req_body = Multipart (files w')\<rparr> wd of
                            (r, wd') \<Rightarrow> (r, w', wd')))))"

text \<open>
  \<^verbatim>\<open>time.sleep(wh_sleep)\<close> records the wait; a negative length is a \<open>ValueError\<close>.
\<close>

definition sleep :: "rat \<Rightarrow> world \<Rightarrow> world" where
  "sleep d wd = wd\<lparr>slept := slept wd @ [d]\<rparr>"

text \<open>
  \<^verbatim>\<open>handle_rate_limit\<close> (585-607). The loop has no bound on its iterations, so the
  function is partial: \<open>None\<close> is a loop that never ends. \<open>request\<close> is the callable
  handed in; calling it may change the client as well as the world.
\<close>

partial_function (option) handle_rate_limit ::
  "(client_state \<Rightarrow> (error + response) \<times> client_state) \<Rightarrow> response \<Rightarrow> client_state
     \<Rightarrow> ((error + response) \<times> client_state) option" where
  "handle_rate_limit request response s =
     (if status_code response = 429 then
        (case loads_content response of
           Inl x \<Rightarrow> Some (Inl x, s)
         | Inr errors \<Rightarrow>
             if \<not> via_present response then Some (Inl HTTPException, s)
             else
               (case py_getitem errors ''retry_after'' of
                  Inl x \<Rightarrow> Some (Inl x, s)
                | Inr v \<Rightarrow>
                    (case py_float v of
                       Inl x \<Rightarrow> Some (Inl x, s)
                     | Inr retry_after \<Rightarrow>
                         (let wh_sleep = retry_after + 15 / 100
                          in if wh_sleep < 0 then Some (Inl ValueError, s)
                             else
                               (case request (fst s, sleep wh_sleep (snd s)) of
                                  (Inl x, s') \<Rightarrow> Some (Inl x, s')
                                | (Inr response', s') \<Rightarrow>
                                    if status_code response' \<in> {200, 204}
                                    then Some (Inr response', s')
                                    else handle_rate_limit request response' s')))))
      else Some (Inr response, s))"

declare handle_rate_limit.simps [code]

text \<open>
  \<^verbatim>\<open>execute\<close> in two parts. \<open>execute_submit\<close> is lines 628-640: the request and
  the branches on its status; the failure branch decodes the content for the log line.
\<close>

definition execute_submit :: "server \<Rightarrow> client_state \<Rightarrow> ((error + response) \<times> client_state) option" where
  "execute_submit srv s =
     (case api_post_request srv s of
        (Inl x, s1) \<Rightarrow> Some (Inl x, s1)
      | (Inr response, s1) \<Rightarrow>
          if status_code response \<in> {200, 204} then Some (Inr response, s1)
          else if status_code response = 429 \<and> truthy (rate_limit_retry (fst s1))
          then handle_rate_limit (api_post_request srv) response s1
          else (case decode_content response of
                  Inl x \<Rightarrow> Some (Inl x, s1)
                | Inr u \<Rightarrow> Some (Inr response, s1)))"

text \<open>Lines 644-649: the identifier and the attachments are taken from the body.\<close>

definition reconcile ::
  "response \<Rightarrow> embed list webhook \<Rightarrow> (error + response) \<times> embed list webhook" where
  "reconcile response w =
     (case loads_content response of
        Inl x \<Rightarrow> (Inl x, w)
      | Inr response_content \<Rightarrow>
          (case py_get response_content ''id'' of
             Inl x \<Rightarrow> (Inl x, w)
           | Inr new_id \<Rightarrow>
               (let w1 = (if truthy new_id then w\<lparr>webhook_id := Some new_id\<rparr> else w)
                in case py_get response_content ''attachments'' of
                     Inl x \<Rightarrow> (Inl x, w1)
                   | Inr atts \<Rightarrow>
                       (Inr response, if truthy atts then w1\<lparr>attachments := atts\<rparr> else w1))))"

text \<open>\<^verbatim>\<open>execute\<close> (622-649): submission, lines 641-643, reconciliation.\<close>

definition execute ::
  "server \<Rightarrow> bool \<Rightarrow> client_state \<Rightarrow> ((error + response) \<times> client_state) option" where
  "execute srv remove s =
     (case execute_submit srv s of
        None \<Rightarrow> None
      | Some (Inl x, s') \<Rightarrow> Some (Inl x, s')
      | Some (Inr response, (w, wd)) \<Rightarrow>
          (let w1 = (if remove then remove_embeds w else w);
               w2 = remove_files False w1
           in case reconcile response w2 of (r, w3) \<Rightarrow> Some (r, w3, wd)))"

text \<open>Calling a \<^verbatim>\<open>functools.partial\<close> of an HTTP call: the client is not touched.\<close>

definition call_partial ::
  "server \<Rightarrow> request \<Rightarrow> client_state \<Rightarrow> (error + response) \<times> client_state" where
  "call_partial srv req s = (case transport srv req (snd s) of (r, wd') \<Rightarrow> (r, fst s, wd'))"

text \<open>
  \<^verbatim>\<open>edit\<close> (651-694). The two assertions need a \<open>str\<close> identifier and a \<open>str\<close>
  URL. The request without files carries \<^verbatim>\<open>params={"wait": True}\<close>; the request
  with files is built without \<^verbatim>\<open>params\<close>.
\<close>

definition edit :: "server \<Rightarrow> client_state \<Rightarrow> ((error + response) \<times> client_state) option" where
  "edit srv s =
     (case s of (w, wd) \<Rightarrow>
        (case webhook_id w of
           None \<Rightarrow> Some (Inl AttributeError, s)
         | Some (PStr i) \<Rightarrow>
             (case url w of
                None \<Rightarrow> Some (Inl AssertionError, s)
              | Some u \<Rightarrow>
                  (let target = u @ ''/messages/'' @ i in
                   case (if files w = [] then
                           (case webhook_json w of
                              Inl x \<Rightarrow> Inl x
                            | Inr data \<Rightarrow>
                                Inr (w, \<lparr>req_method = PATCH, req_url = target,
                                         req_params = [(''wait'', PBool True)],
                                         req_body = JsonBody data\<rparr>))
                         else
                           (case webhook_json w of
                              Inl x \<Rightarrow> Inl x
                            | Inr data \<Rightarrow>
                                if \<not> serializable (PDict data) then Inl TypeError
                                else
                                  (let w' = w\<lparr>files := dict_set ''payload_json''
                                                  (None, PJsonStr (PDict data)) (files w)\<rparr>
                                   in Inr (w', \<lparr>req_method = PATCH, req_url = target,
                                                req_params = [],
                                                req_body = Multipart (files w')\<rparr>)))) of
                     Inl x \<Rightarrow> Some (Inl x, s)
                   | Inr (w', req) \<Rightarrow>
                       (case call_partial srv req (w', wd) of
                          (Inl x, s1) \<Rightarrow> Some (Inl x, s1)
                        | (Inr response, s1) \<Rightarrow>
                            if status_code response \<in> {200, 204}
                            then Some (Inr response, s1)
                            else if status_code response = 429
                                    \<and> truthy (rate_limit_retry (fst s1))
                            then handle_rate_limit (call_partial srv req) response s1
                            else (case decode_content response of
                                    Inl x \<Rightarrow> Some (Inl x, s1)
                                  | Inr u \<Rightarrow> Some (Inr response, s1)))))
         | Some other \<Rightarrow> Some (Inl AssertionError, s)))"

text \<open>\<^verbatim>\<open>delete\<close> (696-717).\<close>

definition delete :: "server \<Rightarrow> client_state \<Rightarrow> ((error + response) \<times> client_state) option" where
  "delete srv s =
     (case s of (w, wd) \<Rightarrow>
        (case webhook_id w of
           None \<Rightarrow> Some (Inl AttributeError, s)
         | Some (PStr i) \<Rightarrow>
             (case url w of
                None \<Rightarrow> Some (Inl AssertionError, s)
              | Some u \<Rightarrow>
                  (let req = \<lparr>req_method = DELETE, req_url = u @ ''/messages/'' @ i,
                              req_params = [], req_body = NoBody\<rparr>
                   in case call_partial srv req s of
                        (Inl x, s1) \<Rightarrow> Some (Inl x, s1)
                      | (Inr response, s1) \<Rightarrow>
                          if status_code response \<in> {200, 204} then Some (Inr response, s1)
                          else if status_code response = 429
                                  \<and> truthy (rate_limit_retry (fst s1))
                          then handle_rate_limit (call_partial srv req) response s1
                          else Some (Inr response, s1)))
         | Some other \<Rightarrow> Some (Inl AssertionError, s)))"

subsection \<open>The non-blocking client (class AsyncDiscordWebhook)\<close>

text \<open>
  The subclass inherits the data model, the constructor, the serializers and the state
  mutators, and overrides the five network operations. Awaiting is sequencing; the
  client session is opened and closed around the call and holds no state of the model.
\<close>

text \<open>
  \<^verbatim>\<open>api_post_request\<close> (async_webhook.py 50-86). The payload is stored encoded,
  as \<open>bytes\<close>. A URL that is \<open>None\<close> is a \<open>TypeError\<close> of this HTTP library.
\<close>

definition async_api_post_request ::
  "server \<Rightarrow> client_state \<Rightarrow> (error + response) \<times> client_state" where
  "async_api_post_request srv s =
     (case s of (w, wd) \<Rightarrow>
        if files w = [] then
          (case webhook_json w of
             Inl x \<Rightarrow> (Inl x, s)
           | Inr data \<Rightarrow>
               (case url w of
                  None \<Rightarrow> (Inl TypeError, s)
                | Some u \<Rightarrow>
                    (case transport srv \<lparr>req_method = POST, req_url = u,
                                         req_params = query_params w,
                                         req_body = JsonBody data\<rparr> wd of
                       (r, wd') \<Rightarrow> (r, w, wd'))))
        else
          (case webhook_json w of
             Inl x \<Rightarrow> (Inl x, s)
           | Inr data \<Rightarrow>
               if \<not> serializable (PDict data) then (Inl TypeError, s)
               else
                 (let w' = w\<lparr>files := dict_set ''payload_json'' (None, PJsonBytes (PDict data))
                                          (files w)\<rparr>
                  in case url w' of
                       None \<Rightarrow> (Inl TypeError, w', wd)
                     | Some u \<Rightarrow>
                         (case transport srv \<lparr>req_method = POST, req_url = u,
                                              req_params = query_params w',
                                              req_body = Multipart (files w')\<rparr> wd of
                            (r, wd') \<Rightarrow> (r, w', wd')))))"

text \<open>
  \<^verbatim>\<open>handle_rate_limit\<close> (88-111). \<^verbatim>\<open>response.json()\<close> decodes and parses the
  content; \<^verbatim>\<open>asyncio.sleep\<close> accepts a negative delay.
\<close>

partial_function (option) async_handle_rate_limit ::
  "(client_state \<Rightarrow> (error + response) \<times> client_state) \<Rightarrow> response \<Rightarrow> client_state
     \<Rightarrow> ((error + response) \<times> client_state) option" where
  "async_handle_rate_limit request response s =
     (if status_code response = 429 then
        (case loads_content response of
           Inl x \<Rightarrow> Some (Inl x, s)
         | Inr errors \<Rightarrow>
             if \<not> via_present response then Some (Inl HTTPException, s)
             else
               (case py_getitem errors ''retry_after'' of
                  Inl x \<Rightarrow> Some (Inl x, s)
                | Inr v \<Rightarrow>
                    (case py_float v of
                       Inl x \<Rightarrow> Some (Inl x, s)
                     | Inr retry_after \<Rightarrow>
                         (let wh_sleep = retry_after + 15 / 100
                          in case request (fst s, sleep wh_sleep (snd s)) of
                               (Inl x, s') \<Rightarrow> Some (Inl x, s')
                             | (Inr response', s') \<Rightarrow>
                                 if status_code response' \<in> {200, 204}
                                 then Some (Inr response', s')
                                 else async_handle_rate_limit request response' s'))))
      else Some (Inr response, s))"

declare async_handle_rate_limit.simps [code]

text \<open>\<^verbatim>\<open>execute\<close> (113-141): lines 124-135, then 136-141.\<close>

definition async_execute_submit ::
  "server \<Rightarrow> client_state \<Rightarrow> ((error + response) \<times> client_state) option" where
  "async_execute_submit srv s =
     (case async_api_post_request srv s of
        (Inl x, s1) \<Rightarrow> Some (Inl x, s1)
      | (Inr response, s1) \<Rightarrow>
          if status_code response \<in> {200, 204} then Some (Inr response, s1)
          else if status_code response = 429 \<and> truthy (rate_limit_retry (fst s1))
          then async_handle_rate_limit (async_api_post_request srv) response s1
          else (case decode_content response of
                  Inl x \<Rightarrow> Some (Inl x, s1)
                | Inr u \<Rightarrow> Some (Inr response, s1)))"

definition async_reconcile ::
  "response \<Rightarrow> embed list webhook \<Rightarrow> (error + response) \<times> embed list webhook" where
  "async_reconcile response w =
     (case loads_content response of
        Inl x \<Rightarrow> (Inl x, w)
      | Inr response_content \<Rightarrow>
          (case py_get response_content ''id'' of
             Inl x \<Rightarrow> (Inl x, w)
           | Inr new_id \<Rightarrow>
               (Inr response, if truthy new_id then w\<lparr>webhook_id := Some new_id\<rparr> else w)))"

definition async_execute ::
  "server \<Rightarrow> bool \<Rightarrow> client_state \<Rightarrow> ((error + response) \<times> client_state) option" where
  "async_execute srv remove s =
     (case async_execute_submit srv s of
        None \<Rightarrow> None
      | Some (Inl x, s') \<Rightarrow> Some (Inl x, s')
      | Some (Inr response, (w, wd)) \<Rightarrow>
          (let w1 = (if remove then remove_embeds w else w);
               w2 = remove_files False w1
           in case async_reconcile response w2 of (r, w3) \<Rightarrow> Some (r, w3, wd)))"

text \<open>\<^verbatim>\<open>edit\<close> (143-190).\<close>

definition async_edit ::
  "server \<Rightarrow> client_state \<Rightarrow> ((error + response) \<times> client_state) option" where
  "async_edit srv s =
     (case s of (w, wd) \<Rightarrow>
        (case webhook_id w of
           None \<Rightarrow> Some (Inl AttributeError, s)
         | Some (PStr i) \<Rightarrow>
             (case url w of
                None \<Rightarrow> Some (Inl AssertionError, s)
              | Some u \<Rightarrow>
                  (let target = u @ ''/messages/'' @ i in
                   case (if files w = [] then
                           (case webhook_json w of
                              Inl x \<Rightarrow> Inl x
                            | Inr data \<Rightarrow>
                                Inr (w, \<lparr>req_method = PATCH, req_url = target,
                                         req_params = [(''wait'', PBool True)],
                                         req_body = JsonBody data\<rparr>))
                         else
                           (case webhook_json w of
                              Inl x \<Rightarrow> Inl x
                            | Inr data \<Rightarrow>
                                if \<not> serializable (PDict data) then Inl TypeError
                                else
                                  (let w' = w\<lparr>files := dict_set ''payload_json''
                                                  (None, PJsonStr (PDict data)) (files w)\<rparr>
                                   in Inr (w', \<lparr>req_method = PATCH, req_url = target,
                                                req_params = [],
                                                req_body = Multipart (files w')\<rparr>)))) of
                     Inl x \<Rightarrow> Some (Inl x, s)
                   | Inr (w', req) \<Rightarrow>
                       (case call_partial srv req (w', wd) of
                          (Inl x, s1) \<Rightarrow> Some (Inl x, s1)
                        | (Inr response, s1) \<Rightarrow>
                            if status_code response \<in> {200, 204}
                            then Some (Inr response, s1)
                            else if status_code response = 429
                                    \<and> truthy (rate_limit_retry (fst s1))
                            then async_handle_rate_limit (call_partial srv req) response s1
                            else (case decode_content response of
                                    Inl x \<Rightarrow> Some (Inl x, s1)
                                  | Inr u \<Rightarrow> Some (Inr response, s1)))))
         | Some other \<Rightarrow> Some (Inl AssertionError, s)))"

text \<open>
  \<^verbatim>\<open>delete\<close> (192-226): one request; every status other than 200 and 204 goes to
  the log line, 429 included.
\<close>

definition async_delete ::
  "server \<Rightarrow> client_state \<Rightarrow> ((error + response) \<times> client_state) option" where
  "async_delete srv s =
     (case s of (w, wd) \<Rightarrow>
        (case webhook_id w of
           None \<Rightarrow> Some (Inl AttributeError, s)
         | Some (PStr i) \<Rightarrow>
             (case url w of
                None \<Rightarrow> Some (Inl AssertionError, s)
              | Some u \<Rightarrow>
                  (let req = \<lparr>req_method = DELETE, req_url = u @ ''/messages/'' @ i,
                              req_params = [], req_body = NoBody\<rparr>
                   in case call_partial srv req s of
                        (Inl x, s1) \<Rightarrow> Some (Inl x, s1)
                      | (Inr response, s1) \<Rightarrow>
                          if status_code response \<in> {200, 204} then Some (Inr response, s1)
                          else (case decode_content response of
                                  Inl x \<Rightarrow> Some (Inl x, s1)
                                | Inr u \<Rightarrow> Some (Inr response, s1))))
         | Some other \<Rightarrow> Some (Inl AssertionError, s)))"

section \<open>Batch construction, with the embed lists in a store\<close>

text \<open>
  \<^verbatim>\<open>create_batch\<close> hands the same keyword arguments to every constructor call, so a
  list passed as \<^verbatim>\<open>embeds\<close> is one object held by all instances, and
  \<^verbatim>\<open>add_embed\<close> appends to that object in place. To see this the embed lists live
  in a store and a client holds the address of its list. The default \<^verbatim>\<open>[]\<close> of
  \<^verbatim>\<open>kwargs.get("embeds", [])\<close> is a new list at every call.
\<close>

record store =
  cells :: "nat \<Rightarrow> embed list"
  fresh :: nat

definition new_list :: "store \<Rightarrow> nat \<times> store" where
  "new_list st = (fresh st, st\<lparr>cells := (cells st)(fresh st := []), fresh := Suc (fresh st)\<rparr>)"

text \<open>\<^verbatim>\<open>[cls(url, **kwargs) for url in urls]\<close>: the first failing constructor ends it.\<close>

fun batch_instances ::
  "string list \<Rightarrow> nat kwargs \<Rightarrow> store \<Rightarrow> (error + nat webhook list) \<times> store" where
  "batch_instances [] kw st = (Inr [], st)"
| "batch_instances (u # us) kw st =
     (case new_list st of
        (a, st1) \<Rightarrow>
          (case webhook_init a (Some u) kw of
             Inl x \<Rightarrow> (Inl x, st1)
           | Inr w \<Rightarrow>
               (case batch_instances us kw st1 of
                  (Inl x, st2) \<Rightarrow> (Inl x, st2)
                | (Inr ws, st2) \<Rightarrow> (Inr (w # ws), st2))))"

text \<open>\<^verbatim>\<open>create_batch\<close> (719-729).\<close>

definition create_batch ::
  "string list \<Rightarrow> nat kwargs \<Rightarrow> store \<Rightarrow> (error + nat webhook list) \<times> store" where
  "create_batch urls kw st =
     (if kw_url kw \<noteq> None then (Inl TypeError, st) else batch_instances urls kw st)"

text \<open>\<^verbatim>\<open>add_embed\<close> (439-444) and \<^verbatim>\<open>get_embeds\<close> (446-451) on a stored list.\<close>

definition add_embed_stored :: "embed \<Rightarrow> nat webhook \<Rightarrow> store \<Rightarrow> store" where
  "add_embed_stored e w st = st\<lparr>cells := (cells st)(embeds w := cells st (embeds w) @ [e])\<rparr>"

definition get_embeds_stored :: "nat webhook \<Rightarrow> store \<Rightarrow> embed list" where
  "get_embeds_stored w st = cells st (embeds w)"

text \<open>
  What lines 647-648 leave in \<^verbatim>\<open>self.attachments\<close>, given its value before: the
  \<^verbatim>\<open>attachments\<close> entry of a body that is a JSON object, when that entry is truthy.
\<close>

definition echoed_attachments :: "response \<Rightarrow> pyval \<Rightarrow> pyval" where
  "echoed_attachments response old =
     (case body response of
        Json (PDict d) \<Rightarrow>
          (case map_of d ''attachments'' of
             None \<Rightarrow> old
           | Some a \<Rightarrow> if truthy a then a else old)
      | _ \<Rightarrow> old)"


section \<open>Test fixtures\<close>

text \<open>The world before anything was sent, and a server that plays a canned sequence.\<close>

definition start :: world where
  "start = \<lparr>sent = [], slept = []\<rparr>"

definition canned :: "response list \<Rightarrow> response \<Rightarrow> server" where
  "canned rs final n = (if n < length rs then rs ! n else final)"

definition empty_store :: store where
  "empty_store = \<lparr>cells = (\<lambda>a. []), fresh = 0\<rparr>"

text \<open>
  The client that \<^verbatim>\<open>DiscordWebhook("https://discord.com/api/webhooks/1/t", content="hi")\<close>
  constructs (lemma \<open>plain_client_constructed\<close> below).
\<close>

definition plain_client :: "embed list webhook" where
  "plain_client =
     \<lparr>allowed_mentions = PDict [], attachments = PList [], avatar_url = PNone,
      content = PStr ''hi'', embeds = [], files = [], rate_limit_retry = PBool False,
      thread_id = PNone, thread_name = PNone, tts = PBool False,
      url = Some ''https://discord.com/api/webhooks/1/t'', username = PBool False,
      wait = PBool True, components = PNone, webhook_id = Some (PStr ''1'')\<rparr>"

definition retrying_client :: "embed list webhook" where
  "retrying_client = plain_client\<lparr>rate_limit_retry := PBool True\<rparr>"

text \<open>
  An embed with a title and a timestamp, as
  \<^verbatim>\<open>DiscordEmbed(title="t", timestamp=1)\<close> builds it, and clients holding a text
  file and that embed.
\<close>

definition stamped_embed :: embed where
  "stamped_embed =
     \<lparr>author = None, color = None, description = None, embed_fields = [], footer = None,
      embed_image = None, provider = None, thumbnail = None,
      timestamp = Some ''1970-01-01T00:00:01'', title = Some ''t'', embed_url = None,
      video = None\<rparr>"

definition text_file_client :: "embed list webhook" where
  "text_file_client = add_file (PStr ''data'') ''a.txt'' plain_client"

definition bytes_file_client :: "embed list webhook" where
  "bytes_file_client = add_file (PBytes ''data'') ''a.txt'' plain_client"


definition batch_urls :: "string list" where
  "batch_urls = [''https://discord.com/api/webhooks/1/t'',
                 ''https://discord.com/api/webhooks/2/u'']"

definition rate_limited :: response where
  "rate_limited =
     \<lparr>status_code = 429, via = Some ''1.1 google'',
      body = Json (PDict [(''message'', PStr ''You are being rate limited.''),
                          (''retry_after'', PFloat (1 / 2)), (''global'', PBool False)])\<rparr>"

definition rate_limited_unmarked :: response where
  "rate_limited_unmarked = rate_limited\<lparr>via := None\<rparr>"

definition delivered :: response where
  "delivered =
     \<lparr>status_code = 200, via = Some ''1.1 google'',
      body = Json (PDict [(''id'', PStr ''1300000000000000000''),
                          (''attachments'',
                           PList [PDict [(''id'', PStr ''0''),
                                         (''filename'', PStr ''a.txt'')]])])\<rparr>"

definition no_content :: response where
  "no_content = \<lparr>status_code = 204, via = None, body = NotJson\<rparr>"


definition delete_request :: request where
  "delete_request =
     \<lparr>req_method = DELETE, req_url = ''https://discord.com/api/webhooks/1/t/messages/1'',
      req_params = [], req_body = NoBody\<rparr>"

section \<open>The fixtures are what the constructors build\<close>

lemma plain_client_constructed:
  "DiscordWebhook (Some ''https://discord.com/api/webhooks/1/t'')
     (no_kwargs\<lparr>kw_content := Some (PStr ''hi'')\<rparr>) = Inr plain_client"
  by code_simp

lemma retrying_client_constructed:
  "DiscordWebhook (Some ''https://discord.com/api/webhooks/1/t'')
     (no_kwargs\<lparr>kw_content := Some (PStr ''hi''), kw_rate_limit_retry := Some (PBool True)\<rparr>)
   = Inr retrying_client"
  by code_simp

lemma stamped_embed_constructed:
  "DiscordEmbed (Some ''t'') None
     (no_embed_kwargs\<lparr>kw_timestamp := Some ''1970-01-01T00:00:01''\<rparr>) = Inr stamped_embed"
  by code_simp

section \<open>The rate-limit retry loop\<close>

lemma handle_rate_limit_retry:
  assumes "status_code r1 = 429" and "via_present r1"
    and "body r1 = Json (PDict errs)"
    and "map_of errs ''retry_after'' = Some (PFloat (1 / 2))"
    and "request (w, sleep (1 / 2 + 15 / 100) wd) = (Inr r2, s')"
    and "status_code r2 = 200"
  shows "handle_rate_limit request r1 (w, wd) = Some (Inr r2, s')"
  using assms
  by (subst handle_rate_limit.simps) (simp add: loads_content_def py_getitem_def Let_def)

lemma handle_rate_limit_unmarked:
  assumes "status_code r = 429" and "\<not> via_present r"
  shows "handle_rate_limit request r s =
           Some (Inl (case loads_content r of Inl x \<Rightarrow> x | Inr v \<Rightarrow> HTTPException), s)"
  using assms
  by (subst handle_rate_limit.simps) (simp split: sum.splits)

text \<open>
  C3. A 429 response with a (non-empty) \<^verbatim>\<open>Via\<close> header and a JSON object whose
  \<^verbatim>\<open>retry_after\<close> is 0.5, followed by a 200 answer to the resubmission: the loop
  returns that answer together with the state the single resubmission left, and the
  resubmission was made after exactly one wait of 0.5 + 0.15, which is at least 0.65.
  A 429 response without the header: the loop ends with an exception and the state is
  the one it started in, so nothing was waited for and nothing was sent.
  Seconds are exact rationals here.
\<close>

theorem handle_rate_limit_canned:
  "(status_code ra = 429 \<and> via_present ra \<and> body ra = Json (PDict errs)
      \<and> map_of errs ''retry_after'' = Some (PFloat (1 / 2))
      \<and> request (w, wd\<lparr>slept := slept wd @ [1 / 2 + 15 / 100]\<rparr>) = (Inr rb, s')
      \<and> status_code rb = 200
    \<longrightarrow> handle_rate_limit request ra (w, wd) = Some (Inr rb, s')
        \<and> (65 / 100 :: rat) \<le> 1 / 2 + 15 / 100)
   \<and> (status_code rc = 429 \<and> \<not> via_present rc
    \<longrightarrow> (\<exists>e. handle_rate_limit request' rc s = Some (Inl e, s)))"
proof (intro conjI impI)
  assume a: "status_code ra = 429 \<and> via_present ra \<and> body ra = Json (PDict errs)
      \<and> map_of errs ''retry_after'' = Some (PFloat (1 / 2))
      \<and> request (w, wd\<lparr>slept := slept wd @ [1 / 2 + 15 / 100]\<rparr>) = (Inr rb, s')
      \<and> status_code rb = 200"
  then have "request (w, sleep (1 / 2 + 15 / 100) wd) = (Inr rb, s')"
    by (simp add: sleep_def)
  with a show "handle_rate_limit request ra (w, wd) = Some (Inr rb, s')"
    by (intro handle_rate_limit_retry [where errs = errs]) simp_all
  show "(65 / 100 :: rat) \<le> 1 / 2 + 15 / 100"
    by simp
next
  assume "status_code rc = 429 \<and> \<not> via_present rc"
  then show "\<exists>e. handle_rate_limit request' rc s = Some (Inl e, s)"
    using handle_rate_limit_unmarked [of rc request' s] by blast
qed

theorem handle_rate_limit_canned_witness:
  "handle_rate_limit (call_partial (canned [] delivered) delete_request) rate_limited (retrying_client, start)
     = Some (Inr delivered, retrying_client, \<lparr>sent = [delete_request], slept = [13 / 20]\<rparr>)
   \<and> (\<exists>e. handle_rate_limit (call_partial (canned [] delivered) delete_request)
             rate_limited_unmarked (retrying_client, start) = Some (Inl e, retrying_client, start))"
proof -
  have p1: "status_code rate_limited = 429 \<and> via_present rate_limited
      \<and> body rate_limited = Json (PDict [(''message'', PStr ''You are being rate limited.''),
                          (''retry_after'', PFloat (1 / 2)), (''global'', PBool False)])
      \<and> map_of [(''message'', PStr ''You are being rate limited.''),
                          (''retry_after'', PFloat (1 / 2)), (''global'', PBool False)]
            ''retry_after'' = Some (PFloat (1 / 2))
      \<and> call_partial (canned [] delivered) delete_request
            (retrying_client, start\<lparr>slept := slept start @ [1 / 2 + 15 / 100]\<rparr>)
          = (Inr delivered, retrying_client, \<lparr>sent = [delete_request], slept = [13 / 20]\<rparr>)
      \<and> status_code delivered = 200"
    by (simp add: rate_limited_def via_present_def delivered_def call_partial_def
        transport_def canned_def start_def delete_request_def)
  have p2: "status_code rate_limited_unmarked = 429 \<and> \<not> via_present rate_limited_unmarked"
    by (simp add: rate_limited_unmarked_def rate_limited_def via_present_def)
  note inst = handle_rate_limit_canned
    [where ra = rate_limited and rc = rate_limited_unmarked and w = retrying_client and wd = start
       and request = "call_partial (canned [] delivered) delete_request"
       and request' = "call_partial (canned [] delivered) delete_request"
       and rb = delivered and s = "(retrying_client, start)"
       and s' = "(retrying_client, \<lparr>sent = [delete_request], slept = [13 / 20]\<rparr>)"]
  from inst [THEN conjunct1, THEN mp, OF p1] inst [THEN conjunct2, THEN mp, OF p2]
  show ?thesis by blast
qed

section \<open>Construction\<close>

lemma split_on_not_Nil: "split_on sep s \<noteq> []"
  by (induction s) (auto split: list.splits)

lemma split_on_no_sep: "sep \<notin> set t \<Longrightarrow> split_on sep t = [t]"
  by (induction t) auto

lemma split_on_append: "split_on sep (p @ sep # t) = split_on sep p @ split_on sep t"
proof (induction p)
  case Nil
  then show ?case by simp
next
  case (Cons c p)
  then show ?case
    by (cases "split_on sep p") (auto simp: split_on_not_Nil)
qed

lemma split_on_length: "length (split_on sep s) = Suc (length (filter (\<lambda>c. c = sep) s))"
proof (induction s)
  case Nil
  then show ?case by simp
next
  case (Cons c s)
  then show ?case
    by (cases "split_on sep s") (auto simp: split_on_not_Nil)
qed

lemma split_on_short: "length (split_on sep s) < 2 \<longleftrightarrow> sep \<notin> set s"
  by (auto simp: split_on_length filter_empty_conv less_Suc_eq)

lemma split_on_last_two:
  assumes "sep \<notin> set ident" and "sep \<notin> set token"
  shows "split_on sep (pre @ sep # ident @ sep # token) = split_on sep pre @ [ident, token]"
proof -
  have "split_on sep (pre @ sep # ident @ sep # token)
          = split_on sep pre @ split_on sep (ident @ sep # token)"
    by (rule split_on_append)
  also have "split_on sep (ident @ sep # token) = split_on sep ident @ split_on sep token"
    by (rule split_on_append)
  finally show ?thesis
    using assms by (simp add: split_on_no_sep)
qed

lemma webhook_init_no_id:
  assumes "kwargs_get (kw_id kw) PNone = PNone"
  shows "webhook_init l None kw = Inl ValueError"
    and "CHR ''/'' \<notin> set s \<Longrightarrow> webhook_init l (Some s) kw = Inl ValueError"
    and "CHR ''/'' \<in> set s \<Longrightarrow>
           \<exists>w. webhook_init l (Some s) kw = Inr w
              \<and> webhook_id w = Some (PStr (split_on (CHR ''/'') s
                                             ! (length (split_on (CHR ''/'') s) - 2)))"
  using assms split_on_short [of "CHR ''/''" s]
  by (auto simp: webhook_init_def Let_def)

lemma webhook_init_url_shape:
  assumes "kwargs_get (kw_id kw) PNone = PNone"
    and "CHR ''/'' \<notin> set ident" and "CHR ''/'' \<notin> set token"
  shows "\<exists>w. webhook_init l (Some (pre @ ''/'' @ ident @ ''/'' @ token)) kw = Inr w
            \<and> webhook_id w = Some (PStr ident)"
proof -
  let ?s = "pre @ ''/'' @ ident @ ''/'' @ token"
  have ch: "split_on (CHR ''/'') ?s = split_on (CHR ''/'') pre @ [ident, token]"
    using split_on_last_two [OF assms(2,3), of pre] by simp
  have "CHR ''/'' \<in> set ?s" by simp
  from webhook_init_no_id(3) [OF assms(1) this, of l]
  show ?thesis unfolding ch by (simp add: nth_append)
qed

text \<open>A supplied identifier is never stored: the attribute stays unassigned.\<close>

lemma webhook_init_supplied_id:
  assumes "kwargs_get (kw_id kw) PNone \<noteq> PNone"
  shows "\<exists>w. webhook_init l u kw = Inr w \<and> webhook_id w = None"
  using assms by (simp add: webhook_init_def Let_def)

lemma webhook_init_two_pieces:
  assumes "kwargs_get (kw_id kw) PNone = PNone"
    and "CHR ''/'' \<notin> set ident" and "CHR ''/'' \<notin> set token"
  shows "\<exists>w. webhook_init l (Some (ident @ ''/'' @ token)) kw = Inr w
            \<and> webhook_id w = Some (PStr ident)"
proof -
  let ?s = "ident @ ''/'' @ token"
  have "split_on (CHR ''/'') ?s = split_on (CHR ''/'') ident @ split_on (CHR ''/'') token"
    using split_on_append [of "CHR ''/''" ident token] by simp
  then have ch: "split_on (CHR ''/'') ?s = [ident, token]"
    using assms(2,3) by (simp add: split_on_no_sep)
  have "CHR ''/'' \<in> set ?s" by simp
  from webhook_init_no_id(3) [OF assms(1) this, of l]
  show ?thesis unfolding ch by simp
qed

text \<open>
  C2, as the code has it. When no \<^verbatim>\<open>id\<close> is supplied (absent or \<open>None\<close>):
  construction fails with \<open>ValueError\<close> when the URL is \<open>None\<close> and when the URL
  string contains no \<^verbatim>\<open>/\<close> at all; for every URL string that contains a
  \<^verbatim>\<open>/\<close> it succeeds, and the identifier is the second-to-last of the pieces that
  splitting the string at every \<^verbatim>\<open>/\<close> gives. In terms of the string: where
  neither \<open>ident\<close> nor \<open>token\<close> contains a \<^verbatim>\<open>/\<close>, the URL
  \<^verbatim>\<open>pre/ident/token\<close> and the URL \<^verbatim>\<open>ident/token\<close> both give the
  identifier \<open>ident\<close>.
\<close>

theorem constructor_identifier:
  "kwargs_get (kw_id kw) PNone = PNone \<longrightarrow>
     DiscordWebhook None kw = Inl ValueError
     \<and> (CHR ''/'' \<notin> set s \<longrightarrow> DiscordWebhook (Some s) kw = Inl ValueError)
     \<and> (CHR ''/'' \<in> set s \<longrightarrow>
          (\<exists>w. DiscordWebhook (Some s) kw = Inr w
              \<and> webhook_id w = Some (PStr (split_on (CHR ''/'') s
                                             ! (length (split_on (CHR ''/'') s) - 2)))))
     \<and> (CHR ''/'' \<notin> set ident \<and> CHR ''/'' \<notin> set token \<longrightarrow>
          (\<exists>w. DiscordWebhook (Some (pre @ ''/'' @ ident @ ''/'' @ token)) kw = Inr w
              \<and> webhook_id w = Some (PStr ident))
          \<and> (\<exists>w. DiscordWebhook (Some (ident @ ''/'' @ token)) kw = Inr w
                \<and> webhook_id w = Some (PStr ident)))"
proof (intro impI conjI)
  assume a: "kwargs_get (kw_id kw) PNone = PNone"
  show "DiscordWebhook None kw = Inl ValueError"
    unfolding DiscordWebhook_def by (rule webhook_init_no_id(1) [OF a])
  show "DiscordWebhook (Some s) kw = Inl ValueError" if "CHR ''/'' \<notin> set s"
    unfolding DiscordWebhook_def by (rule webhook_init_no_id(2) [OF a that])
  show "\<exists>w. DiscordWebhook (Some s) kw = Inr w
           \<and> webhook_id w = Some (PStr (split_on (CHR ''/'') s
                                          ! (length (split_on (CHR ''/'') s) - 2)))"
    if "CHR ''/'' \<in> set s"
    unfolding DiscordWebhook_def by (rule webhook_init_no_id(3) [OF a that])
  show "\<exists>w. DiscordWebhook (Some (pre @ ''/'' @ ident @ ''/'' @ token)) kw = Inr w
            \<and> webhook_id w = Some (PStr ident)"
    if "CHR ''/'' \<notin> set ident \<and> CHR ''/'' \<notin> set token"
    unfolding DiscordWebhook_def using webhook_init_url_shape [OF a] that by blast
  show "\<exists>w. DiscordWebhook (Some (ident @ ''/'' @ token)) kw = Inr w
            \<and> webhook_id w = Some (PStr ident)"
    if "CHR ''/'' \<notin> set ident \<and> CHR ''/'' \<notin> set token"
    unfolding DiscordWebhook_def using webhook_init_two_pieces [OF a] that by blast
qed

theorem constructor_identifier_witness:
  "DiscordWebhook None no_kwargs = Inl ValueError
   \<and> DiscordWebhook (Some ''url1'') no_kwargs = Inl ValueError
   \<and> (\<exists>w. DiscordWebhook (Some ''https://discord.com/api/webhooks/123456789/abcDEF'')
             no_kwargs = Inr w
          \<and> webhook_id w = Some (PStr ''123456789''))
   \<and> (\<exists>w. DiscordWebhook (Some ''123456789/abcDEF'') no_kwargs = Inr w
          \<and> webhook_id w = Some (PStr ''123456789''))
   \<and> (\<exists>w. DiscordWebhook (Some ''https://discord.com/abc'') no_kwargs = Inr w
          \<and> webhook_id w = Some (PStr ''discord.com''))"
proof -
  have a: "kwargs_get (kw_id (no_kwargs :: embed list kwargs)) PNone = PNone"
    by (simp add: no_kwargs_def kwargs_get_def)
  have b: "CHR ''/'' \<notin> set ''url1''" by simp
  have c: "CHR ''/'' \<notin> set ''123456789'' \<and> CHR ''/'' \<notin> set ''abcDEF''" by simp
  have d: "CHR ''/'' \<in> set ''https://discord.com/abc''" by simp
  have ch: "split_on (CHR ''/'') ''https://discord.com/abc''
              ! (length (split_on (CHR ''/'') ''https://discord.com/abc'') - 2)
            = ''discord.com''"
    by code_simp
  note short = constructor_identifier
    [where kw = "no_kwargs :: embed list kwargs" and s = "''url1''"
       and pre = "''https://discord.com/api/webhooks''"
       and ident = "''123456789''" and token = "''abcDEF''", THEN mp, OF a]
  note host = constructor_identifier
    [where kw = "no_kwargs :: embed list kwargs" and s = "''https://discord.com/abc''",
       THEN mp, OF a]
  from host [THEN conjunct2, THEN conjunct2, THEN conjunct1, THEN mp, OF d]
  have e: "\<exists>w. DiscordWebhook (Some ''https://discord.com/abc'') no_kwargs = Inr w
          \<and> webhook_id w = Some (PStr ''discord.com'')"
    unfolding ch .
  from short [THEN conjunct1] short [THEN conjunct2, THEN conjunct1, THEN mp, OF b]
    short [THEN conjunct2, THEN conjunct2, THEN conjunct2, THEN mp, OF c] e
  show ?thesis by simp
qed

text \<open>
  The claim as stated fails: a URL with a single path segment constructs a client, whose
  identifier is the host name.
\<close>

theorem constructor_short_url_counterexample:
  "map_sum id webhook_id (DiscordWebhook (Some ''https://discord.com/abc'') no_kwargs)
     = Inr (Some (PStr ''discord.com''))"
  by code_simp

section \<open>What execute leaves behind\<close>












section \<open>Batch construction\<close>

lemma webhook_init_embeds:
  "webhook_init a u kw = Inr w \<Longrightarrow> embeds w = kwargs_get (kw_embeds kw) a"
  by (auto simp: webhook_init_def Let_def split: if_splits option.splits)

lemma webhook_init_succeeds_iff:
  "(\<exists>w. webhook_init a (Some s) kw = Inr w) \<longleftrightarrow>
     (kwargs_get (kw_id kw) PNone \<noteq> PNone \<or> 2 \<le> length (split_on (CHR ''/'') s))"
  by (auto simp: webhook_init_def Let_def split: if_splits option.splits)

lemma webhook_init_error:
  "webhook_init a u kw = Inl x \<Longrightarrow> x = ValueError"
  by (auto simp: webhook_init_def Let_def split: if_splits option.splits)

lemma batch_instances_props:
  "batch_instances us kw st = (Inr ws, st') \<Longrightarrow>
     length ws = length us \<and> fresh st' = fresh st + length us
     \<and> (\<forall>i<length us. webhook_init (fresh st + i) (Some (us ! i)) kw = Inr (ws ! i))"
proof (induction us arbitrary: st ws)
  case Nil
  then show ?case by simp
next
  case (Cons u us)
  let ?st1 = "snd (new_list st)"
  from Cons.prems obtain w ws' where
    w: "webhook_init (fresh st) (Some u) kw = Inr w"
    and rest: "batch_instances us kw ?st1 = (Inr ws', st')"
    and ws: "ws = w # ws'"
    by (auto simp: new_list_def split: sum.splits prod.splits)
  from Cons.IH [OF rest] have
    ih: "length ws' = length us" "fresh st' = fresh ?st1 + length us"
        "\<forall>i<length us. webhook_init (fresh ?st1 + i) (Some (us ! i)) kw = Inr (ws' ! i)"
    by simp_all
  have f1: "fresh ?st1 = Suc (fresh st)" by (simp add: new_list_def)
  show ?case
  proof (intro conjI allI impI)
    show "length ws = length (u # us)" using ih ws by simp
    show "fresh st' = fresh st + length (u # us)" using ih f1 by simp
    fix i assume "i < length (u # us)"
    then show "webhook_init (fresh st + i) (Some ((u # us) ! i)) kw = Inr (ws ! i)"
      using w ws ih(3) f1 by (cases i) auto
  qed
qed

lemma batch_instances_fails:
  "batch_instances us kw st = (Inl x, st') \<Longrightarrow>
     x = ValueError \<and> (\<exists>u \<in> set us. \<forall>a. webhook_init a (Some u) kw = Inl ValueError)"
proof (induction us arbitrary: st)
  case Nil
  then show ?case by simp
next
  case (Cons u us)
  show ?case
  proof (cases "webhook_init (fresh st) (Some u) kw")
    case (Inl e)
    then have "\<not> (\<exists>w. webhook_init (fresh st) (Some u) kw = Inr w)" by simp
    then have "\<And>a. \<not> (\<exists>w. webhook_init a (Some u) kw = Inr w)"
      unfolding webhook_init_succeeds_iff .
    then have "\<And>a. webhook_init a (Some u) kw = Inl ValueError"
      by (metis webhook_init_error sum.exhaust)
    moreover from Cons.prems Inl have "x = e"
      by (auto simp: new_list_def)
    ultimately show ?thesis using Inl webhook_init_error by auto
  next
    case (Inr w)
    with Cons.prems have "batch_instances us kw (snd (new_list st)) = (Inl x, st')"
      by (auto simp: new_list_def split: sum.splits prod.splits)
    from Cons.IH [OF this] show ?thesis by auto
  qed
qed

lemma batch_independent:
  assumes "batch_instances us kw st = (Inr ws, st')" and "kw_embeds kw = None"
    and "i < length ws" and "j < length ws" and "i \<noteq> j"
  shows "get_embeds_stored (ws ! j) (add_embed_stored e (ws ! i) st') = get_embeds_stored (ws ! j) st'"
proof -
  note p = batch_instances_props [OF assms(1)]
  from p assms(3,4) have "webhook_init (fresh st + i) (Some (us ! i)) kw = Inr (ws ! i)"
    and "webhook_init (fresh st + j) (Some (us ! j)) kw = Inr (ws ! j)"
    by simp_all
  then have "embeds (ws ! i) = fresh st + i" and "embeds (ws ! j) = fresh st + j"
    using assms(2) by (simp_all add: webhook_init_embeds kwargs_get_def)
  with assms(5) show ?thesis
    by (simp add: get_embeds_stored_def add_embed_stored_def)
qed


text \<open>
  C9, as the code has it. A shared configuration that contains a URL is a \<open>TypeError\<close>.
  Without one, a call that returns gives as many instances as there are URLs, the
  \<open>i\<close>-th being what the constructor builds from the \<open>i\<close>-th URL and the shared
  configuration (with a new empty list at hand for the embeds default); when the
  configuration supplies no embeds list, appending an embed to one instance leaves the
  embed sequence of every other instance as it was. A call that does not return these
  instances raises the \<open>ValueError\<close> of a URL the constructor cannot take an identifier
  from.
\<close>

theorem create_batch_instances:
  "(kw_url kw \<noteq> None \<longrightarrow> create_batch urls kw st = (Inl TypeError, st))
   \<and> (kw_url kw = None \<and> create_batch urls kw st = (Inr ws, st') \<longrightarrow>
        length ws = length urls
        \<and> (\<forall>i<length urls. webhook_init (fresh st + i) (Some (urls ! i)) kw = Inr (ws ! i))
        \<and> (kw_embeds kw = None \<longrightarrow>
             (\<forall>i<length ws. \<forall>j<length ws. i \<noteq> j \<longrightarrow>
                get_embeds_stored (ws ! j) (add_embed_stored e (ws ! i) st')
                  = get_embeds_stored (ws ! j) st')))
   \<and> (kw_url kw = None \<and> create_batch urls kw st = (Inl x, st') \<longrightarrow>
        x = ValueError \<and> (\<exists>u \<in> set urls. \<forall>a. webhook_init a (Some u) kw = Inl ValueError))"
proof (intro conjI impI allI)
  assume "kw_url kw \<noteq> None"
  then show "create_batch urls kw st = (Inl TypeError, st)"
    by (simp add: create_batch_def)
next
  assume "kw_url kw = None \<and> create_batch urls kw st = (Inr ws, st')"
  then have b: "batch_instances urls kw st = (Inr ws, st')"
    by (auto simp: create_batch_def)
  note p = batch_instances_props [OF b]
  show "length ws = length urls" using p by simp
  show "webhook_init (fresh st + i) (Some (urls ! i)) kw = Inr (ws ! i)" if "i < length urls" for i
    using p that by simp
  show "get_embeds_stored (ws ! j) (add_embed_stored e (ws ! i) st')
          = get_embeds_stored (ws ! j) st'"
    if "kw_embeds kw = None" "i < length ws" "j < length ws" "i \<noteq> j" for i j
    using batch_independent [OF b that] .
next
  assume "kw_url kw = None \<and> create_batch urls kw st = (Inl x, st')"
  then have b: "batch_instances urls kw st = (Inl x, st')"
    by (auto simp: create_batch_def)
  from batch_instances_fails [OF b]
  show "x = ValueError" and "\<exists>u \<in> set urls. \<forall>a. webhook_init a (Some u) kw = Inl ValueError"
    by simp_all
qed

theorem create_batch_instances_witness:
  "create_batch batch_urls (no_kwargs\<lparr>kw_url := Some (PStr ''https://discord.com'')\<rparr>) empty_store
      = (Inl TypeError, empty_store)
   \<and> (\<exists>ws st'. create_batch batch_urls (no_kwargs\<lparr>kw_content := Some (PStr ''hi'')\<rparr>) empty_store
                  = (Inr ws, st')
         \<and> length ws = 2
         \<and> map webhook_id ws = [Some (PStr ''1''), Some (PStr ''2'')]
         \<and> get_embeds_stored (ws ! 1) (add_embed_stored stamped_embed (ws ! 0) st')
             = get_embeds_stored (ws ! 1) st')
   \<and> fst (create_batch [''url1'', ''url2''] (no_kwargs\<lparr>kw_content := Some (PStr ''hi'')\<rparr>)
             empty_store) = Inl ValueError"
proof -
  let ?kw = "no_kwargs\<lparr>kw_content := Some (PStr ''hi'')\<rparr> :: nat kwargs"
  let ?bad = "no_kwargs\<lparr>kw_url := Some (PStr ''https://discord.com'')\<rparr> :: nat kwargs"
  have u: "kw_url ?kw = None" and em: "kw_embeds ?kw = None"
    by (simp_all add: no_kwargs_def)
  have "kw_url ?bad \<noteq> None"
    by (simp add: no_kwargs_def)
  from create_batch_instances [where kw = ?bad, THEN conjunct1, THEN mp, OF this]
  have t1: "create_batch batch_urls ?bad empty_store = (Inl TypeError, empty_store)" .
  have "map_sum id (map webhook_id) (fst (create_batch batch_urls ?kw empty_store))
          = Inr [Some (PStr ''1''), Some (PStr ''2'')]"
    by code_simp
  then obtain ws st' where
    c: "create_batch batch_urls ?kw empty_store = (Inr ws, st')"
    and ids: "map webhook_id ws = [Some (PStr ''1''), Some (PStr ''2'')]"
    by (cases "create_batch batch_urls ?kw empty_store";
        cases "fst (create_batch batch_urls ?kw empty_store)") auto
  from create_batch_instances [where kw = ?kw and e = stamped_embed,
      THEN conjunct2, THEN conjunct1, THEN mp, OF conjI, OF u c]
  have len: "length ws = length batch_urls"
    and ind: "\<forall>i<length ws. \<forall>j<length ws. i \<noteq> j \<longrightarrow>
                get_embeds_stored (ws ! j) (add_embed_stored stamped_embed (ws ! i) st')
                  = get_embeds_stored (ws ! j) st'"
    using em by simp_all
  from len have l2: "length ws = 2" by (simp add: batch_urls_def)
  with ind have t2: "get_embeds_stored (ws ! 1) (add_embed_stored stamped_embed (ws ! 0) st')
             = get_embeds_stored (ws ! 1) st'"
    by simp
  obtain x st2 where f: "create_batch [''url1'', ''url2''] ?kw empty_store = (Inl x, st2)"
  proof -
    have "isl (fst (create_batch [''url1'', ''url2''] ?kw empty_store))" by code_simp
    then show ?thesis
      using that by (cases "create_batch [''url1'', ''url2''] ?kw empty_store") (auto simp: isl_def)
  qed
  from create_batch_instances [where kw = ?kw,
      THEN conjunct2, THEN conjunct2, THEN mp, OF conjI, OF u f]
  have "x = ValueError" by simp
  with f have t3: "fst (create_batch [''url1'', ''url2''] ?kw empty_store) = Inl ValueError"
    by simp
  from c l2 ids t2 have
    "\<exists>ws st'. create_batch batch_urls ?kw empty_store = (Inr ws, st')
         \<and> length ws = 2
         \<and> map webhook_id ws = [Some (PStr ''1''), Some (PStr ''2'')]
         \<and> get_embeds_stored (ws ! 1) (add_embed_stored stamped_embed (ws ! 0) st')
             = get_embeds_stored (ws ! 1) st'"
    by (intro exI [of _ ws] exI [of _ st'] conjI)
  with t1 t3 show ?thesis by (intro conjI)
qed

text \<open>
  The claim as stated fails: the instances are not independent when the shared
  configuration supplies the embeds list. Both instances then hold the caller's list (at
  address 0 here), and an embed appended through the first is in the sequence of the
  second.
\<close>

theorem create_batch_shared_embeds_counterexample:
  "(case create_batch batch_urls (no_kwargs\<lparr>kw_embeds := Some 0\<rparr>) (empty_store\<lparr>fresh := 1\<rparr>) of
      (Inl x, st) \<Rightarrow> None
    | (Inr ws, st) \<Rightarrow>
        Some (map (\<lambda>w. get_embeds_stored w st) ws,
              map (\<lambda>w. get_embeds_stored w (add_embed_stored stamped_embed (ws ! 0) st)) ws))
   = Some ([[], []], [[stamped_embed], [stamped_embed]])"
  by code_simp

section \<open>The length of an embed\<close>

text \<open>
  An embed that went through \<^verbatim>\<open>add_embed_field\<close> has a field dict of three keys,
  which the loop of \<^verbatim>\<open>__len__\<close> cannot unpack into two names.
\<close>

lemma fields_length_three_keys:
  "fields_length (fs @ [[(k1, v1), (k2, v2), (k3, v3)]]) n = Inl ValueError"
  by (induction fs arbitrary: n) (auto split: list.splits)

lemma embed_len_after_add_embed_field:
  "embed_len (add_embed_field name val inline e) = Inl ValueError"
  by (simp add: embed_len_def add_embed_field_def fields_length_three_keys)

lemma embed_len_without_fields:
  "embed_fields e = [] \<Longrightarrow>
     embed_len e = Inr (str_or_empty_len (title e) + str_or_empty_len (description e)
                        + dict_or_empty_len (footer e) + dict_or_empty_len (author e))"
  by (simp add: embed_len_def)

text \<open>
  C7. The claim: \<^verbatim>\<open>len\<close> of an embed is the sum of the character lengths of the
  title, the description, the footer text, the author name and the name and value of
  every field, and it does not raise. The code, on an embed titled \<^verbatim>\<open>t\<close>: after
  \<^verbatim>\<open>add_embed_field("name", "value")\<close> it raises \<open>ValueError\<close>; after
  \<^verbatim>\<open>set_footer("hello")\<close> it returns 2, the title's one character and the one key
  of the footer dict, where the claim has 6; with a two-key field dict whose name has 17
  characters and whose value has one it returns 10, the title and the lengths of the two
  key names, where the claim has 19.
\<close>

theorem embed_len_diverges:
  "embed_len (add_embed_field ''name'' ''value'' True stamped_embed) = Inl ValueError
   \<and> embed_len (set_footer ''hello'' None None stamped_embed) = Inr 2
   \<and> embed_len (stamped_embed\<lparr>embed_fields := [[(''name'', PStr ''a long field name''),
                                                  (''value'', PStr ''x'')]]\<rparr>) = Inr 10"
  by code_simp

section \<open>The colour of an embed\<close>

lemma set_color_in_range:
  "0 \<le> c \<Longrightarrow> c \<le> 16777215 \<Longrightarrow> set_color (ColorInt c) e = (Inr (), e\<lparr>color := Some c\<rparr>)"
  by (simp add: set_color_def)

lemma set_color_out_of_range:
  "c < 0 \<or> 16777215 < c \<Longrightarrow> fst (set_color (ColorInt c) e) = Inl ColorNotInRangeException"
  by (auto simp: set_color_def)

lemma set_color_hex:
  "int_base16 h = Some n \<Longrightarrow> set_color (ColorStr h) e = set_color (ColorInt n) e"
  by (simp add: set_color_def)

lemma set_color_none: "set_color ColorNone e = (Inr (), e\<lparr>color := None\<rparr>)"
  by (simp add: set_color_def)

lemma map_of_dict_set: "map_of (dict_set k v d) k' = (if k' = k then Some v else map_of d k')"
  by (induction d) auto

lemma map_of_set_if_truthy:
  "map_of (set_if_truthy (k, v) d) k' = (if k' = k \<and> truthy v then Some v else map_of d k')"
  by (simp add: set_if_truthy_def map_of_dict_set)

lemma embed_as_dict_color:
  "timestamp e = Some ts \<Longrightarrow>
     map_sum id (\<lambda>d. map_of d ''color'') (embed_as_dict e)
       = Inr (case color e of None \<Rightarrow> None | Some c \<Rightarrow> if c = 0 then None else Some (PInt c))"
  by (simp add: embed_as_dict_def map_of_set_if_truthy opt_int_def split: option.splits)

lemma embed_as_dict_unstamped: "timestamp e = None \<Longrightarrow> embed_as_dict e = Inl AttributeError"
  by (simp add: embed_as_dict_def)

text \<open>
  C8. The claim: after \<^verbatim>\<open>set_color(c)\<close> with \<open>c\<close> in the 24-bit range the
  serialized embed contains that colour. The code: \<^verbatim>\<open>set_color(0)\<close> succeeds and
  stores 0, and \<^verbatim>\<open>as_dict\<close> leaves the colour out; on an embed that was never given
  a timestamp \<^verbatim>\<open>as_dict\<close> raises \<open>AttributeError\<close>, whatever the colour. (The
  other parts of the claim are the lemmas \<open>set_color_in_range\<close>,
  \<open>set_color_out_of_range\<close>, \<open>set_color_hex\<close> and \<open>set_color_none\<close>; the colours the
  serializer keeps are in \<open>embed_as_dict_color\<close>.)
\<close>

theorem set_color_zero_not_serialized:
  "(case set_color (ColorInt 0) stamped_embed of
      (r, e) \<Rightarrow> (r, color e, map_sum id (\<lambda>d. map_of d ''color'') (embed_as_dict e)))
     = (Inr (), Some 0, Inr None)
   \<and> map_sum id (\<lambda>e. embed_as_dict (snd (set_color (ColorInt 255) e)))
        (DiscordEmbed (Some ''t'') None no_embed_kwargs) = Inr (Inl AttributeError)"
  by code_simp

section \<open>Reconciliation of the response\<close>

lemma reconcile_not_json: "body response = NotJson \<Longrightarrow> reconcile response w = (Inl JSONDecodeError, w)"
  by (simp add: reconcile_def loads_content_def)

lemma reconcile_undecodable: "body response = Undecodable \<Longrightarrow> reconcile response w = (Inl UnicodeDecodeError, w)"
  by (simp add: reconcile_def loads_content_def)

lemma reconcile_not_object:
  "body response = Json v \<Longrightarrow> \<forall>d. v \<noteq> PDict d \<Longrightarrow> reconcile response w = (Inl AttributeError, w)"
  by (cases v) (auto simp: reconcile_def loads_content_def py_get_def)

lemma reconcile_object:
  "body response = Json (PDict d) \<Longrightarrow>
     reconcile response w =
       (Inr response,
        w\<lparr>webhook_id := (case map_of d ''id'' of
                            None \<Rightarrow> webhook_id w
                          | Some i \<Rightarrow> if truthy i then Some i else webhook_id w),
           attachments := echoed_attachments response (attachments w)\<rparr>)"
  by (auto simp: reconcile_def loads_content_def py_get_def echoed_attachments_def Let_def
      split: option.splits)

lemma execute_not_json:
  assumes "execute_submit srv s = Some (Inr response, s')" and "body response = NotJson"
  shows "map_option fst (execute srv remove s) = Some (Inl JSONDecodeError)"
  using assms by (cases s') (simp add: execute_def Let_def reconcile_not_json)

text \<open>
  C1. The claim: whatever the response, the reconciliation does not raise and
  \<^verbatim>\<open>execute\<close> returns the response. The code, in both variants: when the server
  answers 204 with an empty body, \<^verbatim>\<open>execute\<close> ends with \<open>JSONDecodeError\<close>
  (lemma \<open>execute_not_json\<close> has it for every response whose body is not JSON).
\<close>

theorem execute_no_content_raises:
  "map_option fst (execute (canned [] no_content) False (plain_client, start))
     = Some (Inl JSONDecodeError)
   \<and> map_option fst (async_execute (canned [] no_content) False (plain_client, start))
     = Some (Inl JSONDecodeError)"
  by code_simp

section \<open>Editing a message\<close>

lemma call_partial_effect:
  "call_partial srv req (w, wd) = (r, w', wd') \<Longrightarrow>
     w' = w \<and> slept wd' = slept wd \<and> (sent wd' = sent wd \<or> sent wd' = sent wd @ [req])"
  by (auto simp: call_partial_def transport_def split: if_splits)

lemma handle_rate_limit_resubmits:
  assumes "handle_rate_limit request response s = Some y"
    and "request = call_partial srv req"
  shows "fst (snd y) = fst s \<and> (\<exists>n. sent (snd (snd y)) = sent (snd s) @ replicate n req)"
  using assms
proof (induction request response s y rule: handle_rate_limit.raw_induct [rotated 1, consumes 1])
  case (1 hrl request response s y)
  have same: "snd y = s \<Longrightarrow> ?case"
    by (auto intro: exI [of _ 0])
  show ?case
  proof (cases "status_code response = 429")
    case False
    with "1.hyps" have "snd y = s" by auto
    then show ?thesis by (rule same)
  next
    case True
    note rl = this
    show ?thesis
    proof (cases "\<exists>ra. loads_content response = Inr ra \<and> via_present response
             \<and> (\<exists>v. py_getitem ra ''retry_after'' = Inr v
                    \<and> (\<exists>x. py_float v = Inr x \<and> \<not> x + 15 / 100 < 0))")
      case False
      with "1.hyps" rl have "snd y = s"
        by (auto simp: Let_def split: sum.splits if_splits)
      then show ?thesis by (rule same)
    next
      case True
      then obtain ra v x where a: "loads_content response = Inr ra" "via_present response"
        "py_getitem ra ''retry_after'' = Inr v" "py_float v = Inr x" "\<not> x + 15 / 100 < 0"
        by blast
      obtain r w' wd' where q: "request (fst s, sleep (x + 15 / 100) (snd s)) = (r, w', wd')"
        by (metis prod_cases3)
      from call_partial_effect [of srv req "fst s" "sleep (x + 15 / 100) (snd s)" r w' wd'] q "1.prems"
      have f: "w' = fst s" "sent wd' = sent (snd s) \<or> sent wd' = sent (snd s) @ [req]"
        by (simp_all add: sleep_def)
      then have one: "\<exists>n. sent wd' = sent (snd s) @ replicate n req"
        by (metis append_Nil2 replicate_0 replicate_Suc)
      show ?thesis
      proof (cases r)
        case (Inl e)
        with "1.hyps" rl a q have "y = (Inl e, w', wd')" by (simp add: Let_def)
        with f one show ?thesis by simp
      next
        case (Inr r')
        show ?thesis
        proof (cases "status_code r' \<in> {200, 204}")
          case True
          with "1.hyps" rl a q Inr have "y = (Inr r', w', wd')" by (simp add: Let_def)
          with f one show ?thesis by simp
        next
          case False
          with "1.hyps" rl a q Inr have "hrl request r' (w', wd') = Some y" by (simp add: Let_def)
          from "1.IH" [OF this "1.prems"]
          obtain m where "fst (snd y) = w'" "sent (snd (snd y)) = sent wd' @ replicate m req"
            by auto
          moreover from one obtain n where "sent wd' = sent (snd s) @ replicate n req" ..
          ultimately show ?thesis
            using f by (auto simp: replicate_add [symmetric] intro: exI [of _ "n + m"])
        qed
      qed
    qed
  qed
qed

text \<open>
  What \<^verbatim>\<open>edit\<close> does once the identifier, the URL and the payload are there: the
  client it leaves, and the requests it sends, which are copies of one request.
\<close>

lemma edit_effect:
  assumes run: "edit srv (w, wd) = Some (r, w', wd')"
    and ident: "webhook_id w = Some (PStr i)" and target: "url w = Some u"
    and payload: "webhook_json w = Inr data"
    and ok: "files w = [] \<or> serializable (PDict data)"
  shows "w' = (if files w = [] then w
               else w\<lparr>files := dict_set ''payload_json'' (None, PJsonStr (PDict data)) (files w)\<rparr>)
         \<and> (\<exists>n. sent wd' = sent wd @ replicate n
                \<lparr>req_method = PATCH, req_url = u @ ''/messages/'' @ i,
                 req_params = (if files w = [] then [(''wait'', PBool True)] else []),
                 req_body = (if files w = [] then JsonBody data else Multipart (files w'))\<rparr>)"
proof -
  let ?w1 = "if files w = [] then w
             else w\<lparr>files := dict_set ''payload_json'' (None, PJsonStr (PDict data)) (files w)\<rparr>"
  let ?req = "\<lparr>req_method = PATCH, req_url = u @ ''/messages/'' @ i,
               req_params = (if files w = [] then [(''wait'', PBool True)] else []),
               req_body = (if files w = [] then JsonBody data else Multipart (files ?w1))\<rparr>"
  obtain r0 w0 wd0 where c: "call_partial srv ?req (?w1, wd) = (r0, w0, wd0)"
    by (metis prod_cases3)
  note e0 = call_partial_effect [OF c]
  then have one: "\<exists>n. sent wd0 = sent wd @ replicate n ?req"
    by (metis append_Nil2 replicate_0 replicate_Suc)
  have goal: "w' = ?w1 \<and> (\<exists>n. sent wd' = sent wd @ replicate n ?req)"
  proof (cases "\<exists>response. r0 = Inr response \<and> status_code response = 429
                  \<and> truthy (rate_limit_retry w0) \<and> status_code response \<notin> {200, 204}")
    case False
    with run ident target payload ok c have "(w', wd') = (w0, wd0)"
      by (auto simp: edit_def Let_def split: if_splits sum.splits)
    with e0 one show ?thesis by simp
  next
    case True
    then obtain response where t: "r0 = Inr response" "status_code response = 429"
      "truthy (rate_limit_retry w0)" by blast
    with run ident target payload ok c
    have "handle_rate_limit (call_partial srv ?req) response (w0, wd0) = Some (r, w', wd')"
      by (auto simp: edit_def Let_def split: if_splits)
    from handle_rate_limit_resubmits [OF this refl]
    obtain m where "w' = w0" "sent wd' = sent wd0 @ replicate m ?req" by auto
    moreover from one obtain n where "sent wd0 = sent wd @ replicate n ?req" ..
    ultimately show ?thesis
      using e0 by (auto simp: replicate_add [symmetric] intro: exI [of _ "n + m"])
  qed
  then show ?thesis by (simp split: if_splits)
qed

lemma edit_unserializable:
  assumes "webhook_id w = Some (PStr i)" and "url w = Some u"
    and "webhook_json w = Inr data" and "files w \<noteq> []" and "\<not> serializable (PDict data)"
  shows "edit srv (w, wd) = Some (Inl TypeError, w, wd)"
  using assms by (simp add: edit_def)

lemma api_post_request_effect:
  assumes "webhook_json w = Inr data" and "files w \<noteq> []"
  shows "api_post_request srv (w, wd) =
           (if \<not> serializable (PDict data) then (Inl TypeError, w, wd)
            else let w' = w\<lparr>files := dict_set ''payload_json'' (None, PJsonStr (PDict data)) (files w)\<rparr>
                 in case url w of
                      None \<Rightarrow> (Inl MissingSchema, w', wd)
                    | Some u \<Rightarrow>
                        (Inr (srv (length (sent wd))), w',
                         wd\<lparr>sent := sent wd @ [\<lparr>req_method = POST, req_url = u,
                                                  req_params = query_params w,
                                                  req_body = Multipart (files w')\<rparr>]\<rparr>))"
  using assms by (auto simp: api_post_request_def Let_def transport_def query_params_def split: option.splits)

text \<open>A file with \<open>bytes\<close> content makes the payload unserializable.\<close>

lemma dict_set_keeps: "(k', v') \<in> set d \<Longrightarrow> k' \<noteq> k \<Longrightarrow> (k', v') \<in> set (dict_set k v d)"
  by (induction d) auto

lemma dict_set_has: "(k, v) \<in> set (dict_set k v d)"
  by (induction d) auto

lemma set_if_truthy_keeps:
  "(k', v') \<in> set d \<Longrightarrow> k' \<noteq> fst kv \<Longrightarrow> (k', v') \<in> set (set_if_truthy kv d)"
  by (simp add: set_if_truthy_def dict_set_keeps)

lemma webhook_json_files:
  assumes "webhook_json w = Inr data" and "files w \<noteq> []"
  shows "(''files'', files_value (files w)) \<in> set data"
  using assms
  by (auto simp: webhook_json_def set_if_truthy_def files_value_def dict_set_has
      split: option.splits sum.splits)

lemma bytes_file_unserializable:
  assumes "webhook_json w = Inr data" and "(k, fn, PBytes b) \<in> set (files w)"
  shows "\<not> serializable (PDict data)"
proof
  assume s: "serializable (PDict data)"
  from assms(2) have "files w \<noteq> []" by auto
  from webhook_json_files [OF assms(1) this] s
  have "serializable (files_value (files w))"
    by (auto simp: list_all_iff)
  with assms(2) show False
    by (auto simp: files_value_def list_all_iff)
qed

text \<open>
  C4. The claim: every \<^verbatim>\<open>edit\<close> request carries the query parameter
  \<^verbatim>\<open>wait=true\<close>, with or without files. The code, in both variants: with a file
  present the request goes out with no query parameters at all; without files it carries
  \<^verbatim>\<open>wait=True\<close> (lemma \<open>edit_effect\<close> has both branches in general).
\<close>

theorem edit_with_files_sends_no_wait:
  "map_option (\<lambda>(r, w, wd). map req_params (sent wd))
     (edit (canned [] delivered) (text_file_client, start)) = Some [[]]
   \<and> map_option (\<lambda>(r, w, wd). map req_params (sent wd))
     (async_edit (canned [] delivered) (text_file_client, start)) = Some [[]]
   \<and> map_option (\<lambda>(r, w, wd). map req_params (sent wd))
     (edit (canned [] delivered) (plain_client, start)) = Some [[(''wait'', PBool True)]]"
  by code_simp

text \<open>
  C10. The claim: whenever files are present at submission, \<^verbatim>\<open>api_post_request\<close>
  and \<^verbatim>\<open>edit\<close> store the serialized payload under \<^verbatim>\<open>payload_json\<close> and issue the
  request, and after \<^verbatim>\<open>edit\<close> the mapping holds the file slots and that entry. The
  code: with a file whose content is \<open>bytes\<close>, as \<^verbatim>\<open>add_file\<close> documents it, both
  raise \<open>TypeError\<close> while serializing, nothing is stored and nothing is sent (lemma
  \<open>bytes_file_unserializable\<close>: the payload contains the files mapping itself). With
  text content the code does what the claim says (last conjunct, and
  \<open>api_post_request_effect\<close>, \<open>edit_effect\<close> in general).
\<close>

theorem edit_bytes_file_raises:
  "edit (canned [] delivered) (bytes_file_client, start)
     = Some (Inl TypeError, bytes_file_client, start)
   \<and> api_post_request (canned [] delivered) (bytes_file_client, start)
     = (Inl TypeError, bytes_file_client, start)
   \<and> async_edit (canned [] delivered) (bytes_file_client, start)
     = Some (Inl TypeError, bytes_file_client, start)
   \<and> map_option (\<lambda>(r, w, wd). (r, map fst (files w)))
        (edit (canned [] delivered) (text_file_client, start))
     = Some (Inr delivered, [''_a.txt'', ''payload_json''])"
  by code_simp

section \<open>The two variants side by side\<close>

text \<open>
  C5. The claim: the non-blocking \<^verbatim>\<open>execute\<close> absorbs identifier and attachments
  as the blocking one does, and the non-blocking \<^verbatim>\<open>delete\<close> handles a 429 as the
  blocking one does. The code, on the same canned responses: after a 200 whose body
  echoes an attachment the blocking client holds it and the non-blocking client holds
  none; on a 429 (with \<^verbatim>\<open>Via\<close> and \<^verbatim>\<open>retry_after\<close> 0.5) followed by a 204, with
  retries enabled, the blocking \<^verbatim>\<open>delete\<close> waits, resubmits and returns the 204, the
  non-blocking one returns the 429 after its single request.
\<close>

theorem async_variant_diverges:
  "map_option (\<lambda>(r, w, wd). (r, attachments w))
     (execute (canned [] delivered) False (text_file_client, start))
     = Some (Inr delivered, PList [PDict [(''id'', PStr ''0''), (''filename'', PStr ''a.txt'')]])
   \<and> map_option (\<lambda>(r, w, wd). (r, attachments w))
     (async_execute (canned [] delivered) False (text_file_client, start))
     = Some (Inr delivered, PList [])
   \<and> map_option (\<lambda>(r, w, wd). (r, length (sent wd), slept wd))
     (delete (canned [rate_limited] no_content) (retrying_client, start))
     = Some (Inr no_content, 2, [13 / 20])
   \<and> map_option (\<lambda>(r, w, wd). (r, length (sent wd), slept wd))
     (async_delete (canned [rate_limited] no_content) (retrying_client, start))
     = Some (Inr rate_limited, 1, [])"
  by code_simp

end
